theory Spec2Isabelle
  imports Main "HOL-Library.AList" "HOL-Library.Char_ord" "HOL-Library.List_Lexorder"
    "HOL-Library.Multiset"
begin

section \<open>JavaScript values used by the server entities\<close>

text \<open>
  The server entities \<^verbatim>\<open>SchemaBase\<close> (schema resolution) and \<^verbatim>\<open>Media\<close>
  (media deployment) are asynchronous static methods that call services which are not
  part of the sources at hand (\<^verbatim>\<open>FileService\<close>, \<^verbatim>\<open>DatabaseService\<close>,
  \<^verbatim>\<open>SyncService\<close>, the deployer, the generic resource layer). Each such service
  is a parameter of the model; every \<^verbatim>\<open>await\<close> is a sequential step, and a rejected
  promise or a thrown exception is the left injection of a sum.

  The \<^verbatim>\<open>checkParam\<close> calls that open every method test the run-time type of the
  arguments; here the HOL type of an argument carries that information. Two of these calls
  can fail on well-typed arguments and are modelled where they stand: the one of
  \<^verbatim>\<open>SchemaBase.get\<close> that names \<^verbatim>\<open>Options\<close>, and the one of \<^verbatim>\<open>Media.getDeployer\<close>
  when \<^verbatim>\<open>Media.remove\<close> passes the context of a resource that has none.
\<close>

datatype js_error =
    ReferenceError string  \<comment> \<open>read of an identifier with no binding; the identifier\<close>
  | TypeError string       \<comment> \<open>property read on \<^verbatim>\<open>null\<close>/\<^verbatim>\<open>undefined\<close>; the property\<close>
  | Error string           \<comment> \<open>\<^verbatim>\<open>new Error(message)\<close>, also a failure of an external service\<close>

text \<open>Truthiness of a value that is a string, \<^verbatim>\<open>undefined\<close> or \<^verbatim>\<open>null\<close>.\<close>

fun truthy :: "string option \<Rightarrow> bool" where
  "truthy None = False"
| "truthy (Some s) = (s \<noteq> [])"

text \<open>\<^verbatim>\<open>xs[0]\<close>: the first element, \<^verbatim>\<open>undefined\<close> on an empty array.\<close>

fun index0 :: "'a list \<Rightarrow> 'a option" where
  "index0 [] = None"
| "index0 (x # xs) = Some x"

text \<open>\<^verbatim>\<open>a || b\<close> on such values.\<close>

definition js_or :: "string option \<Rightarrow> string option \<Rightarrow> string option" where
  "js_or a b = (if truthy a then a else b)"

section \<open>Schemas\<close>

type_synonym field_def = string

text \<open>
  The data of a schema as the code reads and writes it: \<^verbatim>\<open>id\<close>, \<^verbatim>\<open>type\<close>,
  \<^verbatim>\<open>isLocked\<close>, \<^verbatim>\<open>parentSchemaId\<close> and the field definitions by key.
\<close>

record schema =
  sid :: string
  stype :: string
  isLocked :: bool
  parentSchemaId :: "string option"
  schemaFields :: "string \<rightharpoonup> field_def"

record options =
  customOnly :: bool
  nativeOnly :: bool
  localOnly :: bool
  withParentFields :: bool

text \<open>\<^verbatim>\<open>options = {}\<close>, the default of the last parameter.\<close>

definition no_options :: options where
  "no_options = \<lparr>customOnly = False, nativeOnly = False, localOnly = False,
     withParentFields = False\<rparr>"

text \<open>
  The services \<^verbatim>\<open>SchemaBase.get\<close> calls:
  \<^item> \<open>listCore i\<close> is \<^verbatim>\<open>FileService.list\<close> of \<^verbatim>\<open>APP_ROOT/schema/*/<i>.json\<close>,
    \<open>listPlugin i\<close> of \<^verbatim>\<open>APP_ROOT/plugins/*/schema/*/<i>.json\<close>;
  \<^item> \<open>readJson p\<close> is \<^verbatim>\<open>JSON.parse(await FileService.read(p))\<close>, either of which
    may throw;
  \<^item> \<open>typeTag p\<close> is \<^verbatim>\<open>Path.dirname(p).split('/').pop().toLowerCase()\<close>;
  \<^item> \<open>findOne project collection i\<close> is \<^verbatim>\<open>DatabaseService.findOne\<close> with the
    filter \<^verbatim>\<open>{ id: i }\<close>;
  \<^item> \<open>getResourceItem project environment i\<close> is \<^verbatim>\<open>SyncService.getResourceItem\<close>
    for the resource type \<^verbatim>\<open>'schemas'\<close>.
\<close>

record services =
  listCore :: "string \<Rightarrow> string list"
  listPlugin :: "string \<Rightarrow> string list"
  readJson :: "string \<Rightarrow> js_error + schema"
  typeTag :: "string \<Rightarrow> string"
  findOne :: "string \<Rightarrow> string \<Rightarrow> string \<Rightarrow> schema option"
  getResourceItem :: "string \<Rightarrow> string \<Rightarrow> string \<Rightarrow> schema option"

text \<open>The calls to the services, in the order they are made.\<close>

datatype call =
    FileList_core
  | FileList_plugin
  | FileRead string
  | Database_findOne
  | Sync_getResourceItem

subsection \<open>Finding the data of a schema\<close>

text \<open>
  The first block of \<^verbatim>\<open>get\<close>, under \<^verbatim>\<open>if(!options.customOnly)\<close>: both globs are
  listed, \<^verbatim>\<open>schemaPath = corePaths[0] || pluginPaths[0]\<close>, and a path that is found is
  read, parsed and stamped with the identifier, the type tag and \<^verbatim>\<open>isLocked = true\<close>.
\<close>

definition schemaPath :: "services \<Rightarrow> string \<Rightarrow> string option" where
  "schemaPath sv i = js_or (index0 (listCore sv i)) (index0 (listPlugin sv i))"

definition native_data :: "services \<Rightarrow> string \<Rightarrow> options \<Rightarrow> call list \<times> (js_error + schema option)" where
  "native_data sv i opts =
     (if customOnly opts then ([], Inr None)
      else if truthy (schemaPath sv i) then
        (case readJson sv (the (schemaPath sv i)) of
           Inl e \<Rightarrow> ([FileList_core, FileList_plugin, FileRead (the (schemaPath sv i))], Inl e)
         | Inr d \<Rightarrow>
             ([FileList_core, FileList_plugin, FileRead (the (schemaPath sv i))],
              Inr (Some (d\<lparr>sid := i, stype := typeTag sv (the (schemaPath sv i)),
                            isLocked := True\<rparr>))))
      else ([FileList_core, FileList_plugin], Inr None))"

text \<open>
  The second and third block: the custom record, \<^verbatim>\<open>if(!data && !options.nativeOnly)\<close>,
  then the synchronised copy,
  \<^verbatim>\<open>if(!data && !options.localOnly && !options.nativeOnly)\<close>. A record is an
  object, hence truthy; \<^verbatim>\<open>null\<close> is \<open>None\<close>.
\<close>

definition custom_data ::
  "services \<Rightarrow> string \<Rightarrow> string \<Rightarrow> string \<Rightarrow> options \<Rightarrow> schema option
     \<Rightarrow> call list \<times> schema option" where
  "custom_data sv project environment i opts data =
     (if data = None \<and> \<not> nativeOnly opts
      then ([Database_findOne], findOne sv project (environment @ ''.schemas'') i)
      else ([], data))"

definition synced_data ::
  "services \<Rightarrow> string \<Rightarrow> string \<Rightarrow> string \<Rightarrow> options \<Rightarrow> schema option
     \<Rightarrow> call list \<times> schema option" where
  "synced_data sv project environment i opts data =
     (if data = None \<and> \<not> localOnly opts \<and> \<not> nativeOnly opts
      then ([Sync_getResourceItem], getResourceItem sv project environment i)
      else ([], data))"

text \<open>
  The three blocks in sequence, as they run once the method has reached them with
  \<^verbatim>\<open>Path\<close> bound; an exception in the first ends the call.
\<close>

definition find_data ::
  "services \<Rightarrow> string \<Rightarrow> string \<Rightarrow> string \<Rightarrow> options
     \<Rightarrow> call list \<times> (js_error + schema option)" where
  "find_data sv project environment i opts =
     (case native_data sv i opts of
        (c1, Inl e) \<Rightarrow> (c1, Inl e)
      | (c1, Inr d1) \<Rightarrow>
          (case custom_data sv project environment i opts d1 of
             (c2, d2) \<Rightarrow>
               (case synced_data sv project environment i opts d2 of
                  (c3, d3) \<Rightarrow> (c1 @ c2 @ c3, Inr d3))))"

subsection \<open>Merging and instantiating\<close>

text \<open>
  Modelled from the spec: \<^verbatim>\<open>SchemaBase.merge\<close> is inherited from the common
  \<^verbatim>\<open>SchemaBase\<close> entity, which is not among the sources. The specification gives a
  shallow key-wise merge of the field-definition maps: a key of the parent that the child
  lacks is added, a key of both keeps the child's definition.
\<close>

definition merge :: "schema \<Rightarrow> schema \<Rightarrow> schema" where
  "merge child parent = child\<lparr>schemaFields := schemaFields parent ++ schemaFields child\<rparr>"

text \<open>
  The value \<^verbatim>\<open>get\<close> returns: a \<^verbatim>\<open>FieldSchema\<close>, a \<^verbatim>\<open>ContentSchema\<close> or a
  \<^verbatim>\<open>SchemaBase\<close> built from the data, by its type tag.
\<close>

datatype schema_entity = FieldSchema schema | ContentSchema schema | SchemaBase schema

definition instantiate :: "schema \<Rightarrow> schema_entity" where
  "instantiate d =
     (if stype d = ''field'' then FieldSchema d
      else if stype d = ''content'' then ContentSchema d
      else SchemaBase d)"

fun entity_data :: "schema_entity \<Rightarrow> schema" where
  "entity_data (FieldSchema d) = d"
| "entity_data (ContentSchema d) = d"
| "entity_data (SchemaBase d) = d"

subsection \<open>\<^verbatim>\<open>SchemaBase.get\<close>\<close>

text \<open>
  The method opens with four \<^verbatim>\<open>checkParam\<close> calls. \<^verbatim>\<open>checkParam\<close> is a global that
  every method of the sources calls; it is taken to pass on arguments of the types given
  here. The fourth call, however, names a class \<^verbatim>\<open>Options\<close> that no source declares
  (the other methods pass \<^verbatim>\<open>Object\<close>), and the first lookup block calls
  \<^verbatim>\<open>Path.join\<close> although this file never requires \<^verbatim>\<open>Path\<close>. Whether these two
  identifiers are bound is a parameter of the model, as is the binding of \<^verbatim>\<open>query\<close>:
  \<open>SchemaBase_get_call\<close> below is the whole method under a given global scope, and
  \<open>SchemaBase_get\<close> is what it does where \<^verbatim>\<open>Options\<close> and \<^verbatim>\<open>Path\<close> are bound, the
  method from \<^verbatim>\<open>let data = null\<close> on.

  The test that guards the parent walk is
  \<^verbatim>\<open>data && query.withParentFields && data.parentSchemaId\<close>. The method has no
  parameter and no local named \<^verbatim>\<open>query\<close> (its last parameter is \<^verbatim>\<open>options\<close>), and
  no source file declares one, so the identifier resolves in the global scope. What it
  finds there is a parameter of the model: no binding (the read throws a
  \<^verbatim>\<open>ReferenceError\<close>), \<^verbatim>\<open>null\<close> or \<^verbatim>\<open>undefined\<close> (the property read throws a
  \<^verbatim>\<open>TypeError\<close>), or a value whose \<^verbatim>\<open>withParentFields\<close> is truthy or falsy.
\<close>

datatype query_global = Query_undeclared | Query_nullish | Query_value bool

text \<open>
  The parent walk calls \<^verbatim>\<open>get\<close> again, and nothing bounds the number of calls, so the
  model carries fuel: \<open>None\<close> says that the fuel ran out before the call returned. One
  unit is spent on every call of \<^verbatim>\<open>get\<close> and on every test of the loop condition.

  \<open>SchemaBase_get\<close> is the method from \<^verbatim>\<open>let data = null\<close> on; \<open>parent_walk\<close> is
  its \<^verbatim>\<open>while(childSchema.parentSchemaId)\<close> loop on \<open>childSchema\<close> and
  \<open>mergedSchema\<close>. With no data found the guard stops at \<^verbatim>\<open>data\<close> and the next
  statement reads \<^verbatim>\<open>data.type\<close> of \<^verbatim>\<open>null\<close>.
\<close>

fun SchemaBase_get ::
  "nat \<Rightarrow> services \<Rightarrow> query_global \<Rightarrow> string \<Rightarrow> string \<Rightarrow> string \<Rightarrow> options
     \<Rightarrow> (js_error + schema_entity) option"
and parent_walk ::
  "nat \<Rightarrow> services \<Rightarrow> query_global \<Rightarrow> string \<Rightarrow> string \<Rightarrow> schema \<Rightarrow> schema
     \<Rightarrow> (js_error + schema) option"
where
  "SchemaBase_get 0 sv q project environment i opts = None"
| "SchemaBase_get (Suc n) sv q project environment i opts =
     (case snd (find_data sv project environment i opts) of
        Inl e \<Rightarrow> Some (Inl e)
      | Inr None \<Rightarrow> Some (Inl (TypeError ''type''))
      | Inr (Some data) \<Rightarrow>
          (case q of
             Query_undeclared \<Rightarrow> Some (Inl (ReferenceError ''query''))
           | Query_nullish \<Rightarrow> Some (Inl (TypeError ''withParentFields''))
           | Query_value wpf \<Rightarrow>
               if wpf \<and> truthy (parentSchemaId data) then
                 (case parent_walk n sv q project environment data data of
                    None \<Rightarrow> None
                  | Some (Inl e) \<Rightarrow> Some (Inl e)
                  | Some (Inr mergedSchema) \<Rightarrow> Some (Inr (instantiate mergedSchema)))
               else Some (Inr (instantiate data))))"
| "parent_walk 0 sv q project environment childSchema mergedSchema = None"
| "parent_walk (Suc n) sv q project environment childSchema mergedSchema =
     (if truthy (parentSchemaId childSchema) then
        (case SchemaBase_get n sv q project environment (the (parentSchemaId childSchema))
                no_options of
           None \<Rightarrow> None
         | Some (Inl e) \<Rightarrow> Some (Inl e)
         | Some (Inr parentSchema) \<Rightarrow>
             parent_walk n sv q project environment (entity_data parentSchema)
               (merge mergedSchema (entity_data parentSchema)))
      else Some (Inr mergedSchema))"

subsection \<open>The whole method, under a global scope\<close>

text \<open>
  The bindings the method reads from the global scope: whether \<^verbatim>\<open>Options\<close> has one,
  whether \<^verbatim>\<open>Path\<close> has one, and what \<^verbatim>\<open>query\<close> is bound to.
\<close>

record global_scope =
  has_Options :: bool
  has_Path :: bool
  query_binding :: query_global

text \<open>
  The method from its first line, with the calls to the services it has made when it
  returns or throws. The arguments of \<^verbatim>\<open>checkParam(options, 'options', Options, true)\<close>
  are evaluated before anything else happens: with \<^verbatim>\<open>Options\<close> unbound the method throws
  there. Without \<^verbatim>\<open>customOnly\<close> the next block starts with \<^verbatim>\<open>Path.join\<close> and throws
  there with \<^verbatim>\<open>Path\<close> unbound. From then on it is \<open>find_data\<close> and the walk; the walk
  calls the whole method again.
\<close>

fun SchemaBase_get_call ::
  "nat \<Rightarrow> services \<Rightarrow> global_scope \<Rightarrow> string \<Rightarrow> string \<Rightarrow> string \<Rightarrow> options
     \<Rightarrow> (call list \<times> (js_error + schema_entity)) option"
and parent_walk_call ::
  "nat \<Rightarrow> services \<Rightarrow> global_scope \<Rightarrow> string \<Rightarrow> string \<Rightarrow> schema \<Rightarrow> schema
     \<Rightarrow> (call list \<times> (js_error + schema)) option"
where
  "SchemaBase_get_call 0 sv g project environment i opts = None"
| "SchemaBase_get_call (Suc n) sv g project environment i opts =
     (if \<not> has_Options g then Some ([], Inl (ReferenceError ''Options''))
      else if \<not> customOnly opts \<and> \<not> has_Path g then Some ([], Inl (ReferenceError ''Path''))
      else
        (case find_data sv project environment i opts of
           (calls, Inl e) \<Rightarrow> Some (calls, Inl e)
         | (calls, Inr None) \<Rightarrow> Some (calls, Inl (TypeError ''type''))
         | (calls, Inr (Some data)) \<Rightarrow>
             (case query_binding g of
                Query_undeclared \<Rightarrow> Some (calls, Inl (ReferenceError ''query''))
              | Query_nullish \<Rightarrow> Some (calls, Inl (TypeError ''withParentFields''))
              | Query_value wpf \<Rightarrow>
                  if wpf \<and> truthy (parentSchemaId data) then
                    (case parent_walk_call n sv g project environment data data of
                       None \<Rightarrow> None
                     | Some (later, Inl e) \<Rightarrow> Some (calls @ later, Inl e)
                     | Some (later, Inr mergedSchema) \<Rightarrow>
                         Some (calls @ later, Inr (instantiate mergedSchema)))
                  else Some (calls, Inr (instantiate data)))))"
| "parent_walk_call 0 sv g project environment childSchema mergedSchema = None"
| "parent_walk_call (Suc n) sv g project environment childSchema mergedSchema =
     (if truthy (parentSchemaId childSchema) then
        (case SchemaBase_get_call n sv g project environment (the (parentSchemaId childSchema))
                no_options of
           None \<Rightarrow> None
         | Some (calls, Inl e) \<Rightarrow> Some (calls, Inl e)
         | Some (calls, Inr parentSchema) \<Rightarrow>
             (case parent_walk_call n sv g project environment (entity_data parentSchema)
                     (merge mergedSchema (entity_data parentSchema)) of
                None \<Rightarrow> None
              | Some (later, r) \<Rightarrow> Some (calls @ later, r)))
      else Some ([], Inr mergedSchema))"

section \<open>Media\<close>

subsection \<open>Strings and numbers\<close>

text \<open>\<^verbatim>\<open>s.indexOf(sub) > -1\<close>: whether \<open>sub\<close> occurs in \<open>s\<close>.\<close>

fun starts_with :: "string \<Rightarrow> string \<Rightarrow> bool" where
  "starts_with [] s = True"
| "starts_with (p # ps) [] = False"
| "starts_with (p # ps) (c # cs) = (p = c \<and> starts_with ps cs)"

fun occurs_in :: "string \<Rightarrow> string \<Rightarrow> bool" where
  "occurs_in sub [] = (sub = [])"
| "occurs_in sub (c # cs) = (starts_with sub (c # cs) \<or> occurs_in sub cs)"

text \<open>
  A non-negative integer as \<^verbatim>\<open>+\<close> appends it to a string: its decimal digits. This
  is how a number prints that is an integer below \<open>10\<^sup>2\<^sup>1\<close> and exactly representable,
  as the default size 200 of a thumbnail is; larger numbers print with an exponent.
\<close>

fun decimal :: "nat \<Rightarrow> string" where
  "decimal n = (if n < 10 then [char_of (48 + n)]
                else decimal (n div 10) @ [char_of (48 + n mod 10)])"

subsection \<open>Data\<close>

record ctx =
  projectId :: string
  environmentName :: string

text \<open>
  A media resource: \<^verbatim>\<open>id\<close>, \<^verbatim>\<open>filename\<close>, \<^verbatim>\<open>context\<close>, and whatever else its
  database record holds (\<open>None\<close> in a resource that was not read from the database).
\<close>

record media =
  mid :: string
  filename :: "string option"
  mcontext :: "ctx option"
  metadata :: "string option"

text \<open>The \<^verbatim>\<open>data\<close> and \<^verbatim>\<open>options\<close> arguments of \<^verbatim>\<open>Media.create\<close>.\<close>

record media_data =
  dataFilename :: string

record create_options =
  full :: string
  optFilename :: string

text \<open>The environment setting \<^verbatim>\<open>mediaDeployer\<close>: an alias and connection parameters.\<close>

record deployer_settings =
  deployerAlias :: "string option"

text \<open>
  The state one context sees: the \<^verbatim>\<open>mediaDeployer\<close> setting of its environment, the
  files in the storage that a deployer of this environment serves (a path token is the
  list of segments below the deployer's root, with the content in base64), and the media
  records of its database.
\<close>

type_synonym path = "string list"

record media_state =
  mediaDeployer :: "deployer_settings option"
  storage :: "(path \<times> string) list"
  database :: "media list"

definition thumbnail_jpg :: string where
  "thumbnail_jpg = ''thumbnail.jpg''"

subsection \<open>The deployer and the resource layer\<close>

text \<open>
  Modelled from the spec: the deployer classes are not among the sources. The
  specification gives the capability contract \<^verbatim>\<open>getPath(id, ...segments)\<close>,
  \<^verbatim>\<open>getFolder(path, depth?)\<close> (the deployed files at or below a path),
  \<^verbatim>\<open>setFile(path, base64Content)\<close>, \<^verbatim>\<open>removeFile(path)\<close> and
  \<^verbatim>\<open>removeFolder(path)\<close>. \<open>getFolder\<close> lists the files \<open>depth\<close> levels below the
  path, one level when no depth is given.
\<close>

definition getPath :: "string list \<Rightarrow> path" where
  "getPath segments = segments"

definition below :: "path \<Rightarrow> path \<Rightarrow> bool" where
  "below folder p = (take (length folder) p = folder)"

definition getFolder :: "path \<Rightarrow> nat option \<Rightarrow> (path \<times> string) list \<Rightarrow> path list" where
  "getFolder folder depth st =
     filter (\<lambda>p. below folder p \<and>
                 length p = length folder + (case depth of None \<Rightarrow> 1 | Some d \<Rightarrow> d))
       (map fst st)"

definition setFile :: "path \<Rightarrow> string \<Rightarrow> (path \<times> string) list \<Rightarrow> (path \<times> string) list" where
  "setFile p content st = AList.update p content st"

definition removeFile :: "path \<Rightarrow> (path \<times> string) list \<Rightarrow> (path \<times> string) list" where
  "removeFile p st = AList.delete p st"

definition removeFolder :: "path \<Rightarrow> (path \<times> string) list \<Rightarrow> (path \<times> string) list" where
  "removeFolder folder st = filter (\<lambda>e. \<not> below folder (fst e)) st"

text \<open>\<^verbatim>\<open>Path.basename\<close> and \<^verbatim>\<open>Path.dirname\<close> on a path token.\<close>

definition basename :: "path \<Rightarrow> string" where
  "basename p = (if p = [] then [] else last p)"

definition dirname :: "path \<Rightarrow> path" where
  "dirname p = butlast p"

text \<open>
  Modelled from the spec: the generic resource layer (\<^verbatim>\<open>super.get\<close>,
  \<^verbatim>\<open>super.list\<close>, \<^verbatim>\<open>super.remove\<close>) is not among the sources. The specification
  gives \<^verbatim>\<open>findOne\<close> and \<^verbatim>\<open>find\<close> on the records of the context, and a removal that
  deletes the persisted record.
\<close>

definition Resource_get :: "media_state \<Rightarrow> string \<Rightarrow> media option" where
  "Resource_get s i = find (\<lambda>r. mid r = i) (database s)"

definition Resource_list :: "media_state \<Rightarrow> media list" where
  "Resource_list s = database s"

definition Resource_remove :: "media_state \<Rightarrow> string \<Rightarrow> media_state" where
  "Resource_remove s i = s\<lparr>database := filter (\<lambda>r. mid r \<noteq> i) (database s)\<rparr>"

text \<open>
  What else the media entity calls, as parameters:
  \<^item> \<open>superCreate\<close> is \<^verbatim>\<open>super.create(context, data, options)\<close>: it returns the new
    resource or throws, and leaves a state behind either way;
  \<^item> \<open>getMIMEType\<close>, \<open>APP_ROOT\<close> are the globals of these names, \<open>pathJoin\<close> and
    \<open>pathExtname\<close> are \<^verbatim>\<open>Path.join\<close> and \<^verbatim>\<open>Path.extname\<close>;
  \<^item> \<open>makeDirectory\<close>, \<open>writeFile\<close>, \<open>readFile\<close>, \<open>removePath\<close> are
    \<^verbatim>\<open>FileService.makeDirectory\<close>, \<^verbatim>\<open>write\<close>, \<^verbatim>\<open>read\<close> and \<^verbatim>\<open>remove\<close>, and
    \<open>exec\<close> is \<^verbatim>\<open>AppService.exec\<close>; each gives the exception it throws, if any;
  \<^item> \<open>fromBase64\<close> is \<^verbatim>\<open>Buffer.from(s, 'base64')\<close> and \<open>toBase64\<close> is
    \<^verbatim>\<open>buffer.toString('base64')\<close>;
  \<^item> \<open>getName\<close> is the \<^verbatim>\<open>getName()\<close> method of the common media entity.
\<close>

record externals =
  superCreate :: "media_state \<Rightarrow> ctx \<Rightarrow> media_data \<Rightarrow> create_options
                    \<Rightarrow> (js_error + media) \<times> media_state"
  getMIMEType :: "string \<Rightarrow> string"
  APP_ROOT :: string
  pathJoin :: "string list \<Rightarrow> string"
  pathExtname :: "string \<Rightarrow> string"
  makeDirectory :: "string \<Rightarrow> js_error option"
  writeFile :: "string \<Rightarrow> string \<Rightarrow> js_error option"
  exec :: "string \<Rightarrow> js_error option"
  readFile :: "string \<Rightarrow> js_error + string"
  removePath :: "string \<Rightarrow> js_error option"
  fromBase64 :: "string \<Rightarrow> string"
  toBase64 :: "string \<Rightarrow> string"
  getName :: "media \<Rightarrow> string"

subsection \<open>\<^verbatim>\<open>Media.getDeployer\<close>\<close>

text \<open>\<^verbatim>\<open>if(!deployer || !deployer.alias) { return null; }\<close>, else a deployer of the settings.\<close>

definition getDeployer :: "media_state \<Rightarrow> deployer_settings option" where
  "getDeployer s =
     (case mediaDeployer s of
        None \<Rightarrow> None
      | Some deployer \<Rightarrow> if truthy (deployerAlias deployer) then Some deployer else None)"

subsection \<open>\<^verbatim>\<open>Media.generateThumbnail\<close>\<close>

text \<open>The calls to the file system and to the shell, in the order they are made.\<close>

datatype fs_call =
    MakeDirectory string
  | Write string string
  | Exec string
  | Read string
  | Remove string

definition tempFolder :: "externals \<Rightarrow> ctx \<Rightarrow> string" where
  "tempFolder ext c =
     pathJoin ext [APP_ROOT ext, ''storage'', projectId c, environmentName c, ''media'']"

definition tempFile :: "externals \<Rightarrow> ctx \<Rightarrow> string \<Rightarrow> string" where
  "tempFile ext c name = pathJoin ext [tempFolder ext c, ''thumbnail'' @ pathExtname ext name]"

text \<open>
  \<^verbatim>\<open>'convert ' + tempFile + ' -auto-orient -resize ' + width +
  (height ? 'x' + height : '') + '\\> ' + tempFile\<close>
\<close>

definition convert_command :: "string \<Rightarrow> nat \<Rightarrow> nat \<Rightarrow> string" where
  "convert_command file width height =
     ''convert '' @ file @ '' -auto-orient -resize '' @ decimal width @
     (if height \<noteq> 0 then ''x'' @ decimal height else []) @ [CHR 0x5C] @ ''> '' @ file"

text \<open>
  An image that is not an SVG, by the MIME type of the file name: the negation of
  \<^verbatim>\<open>type.indexOf('image') < 0 || type.indexOf('svg') > -1\<close>.
\<close>

definition raster_image :: "externals \<Rightarrow> string \<Rightarrow> bool" where
  "raster_image ext name =
     (\<not> (\<not> occurs_in ''image'' (getMIMEType ext name) \<or> occurs_in ''svg'' (getMIMEType ext name)))"

text \<open>
  The method returns \<^verbatim>\<open>null\<close> for anything but such an image. Otherwise its five
  awaited calls follow one another with no \<^verbatim>\<open>try\<close> around them: the first that throws
  ends the method.
\<close>

definition generateThumbnail ::
  "externals \<Rightarrow> ctx \<Rightarrow> string \<Rightarrow> string \<Rightarrow> nat \<Rightarrow> nat \<Rightarrow> fs_call list \<times> (js_error + string option)" where
  "generateThumbnail ext c name data width height =
     (if \<not> raster_image ext name then ([], Inr None)
      else
        (case makeDirectory ext (tempFolder ext c) of
           Some e \<Rightarrow> ([MakeDirectory (tempFolder ext c)], Inl e)
         | None \<Rightarrow>
        (case writeFile ext data (tempFile ext c name) of
           Some e \<Rightarrow>
             ([MakeDirectory (tempFolder ext c), Write data (tempFile ext c name)], Inl e)
         | None \<Rightarrow>
        (case exec ext (convert_command (tempFile ext c name) width height) of
           Some e \<Rightarrow>
             ([MakeDirectory (tempFolder ext c), Write data (tempFile ext c name),
               Exec (convert_command (tempFile ext c name) width height)], Inl e)
         | None \<Rightarrow>
        (case readFile ext (tempFile ext c name) of
           Inl e \<Rightarrow>
             ([MakeDirectory (tempFolder ext c), Write data (tempFile ext c name),
               Exec (convert_command (tempFile ext c name) width height),
               Read (tempFile ext c name)], Inl e)
         | Inr scaled \<Rightarrow>
        (case removePath ext (tempFolder ext c) of
           Some e \<Rightarrow>
             ([MakeDirectory (tempFolder ext c), Write data (tempFile ext c name),
               Exec (convert_command (tempFile ext c name) width height),
               Read (tempFile ext c name), Remove (tempFolder ext c)], Inl e)
         | None \<Rightarrow>
             ([MakeDirectory (tempFolder ext c), Write data (tempFile ext c name),
               Exec (convert_command (tempFile ext c name) width height),
               Read (tempFile ext c name), Remove (tempFolder ext c)], Inr (Some scaled))))))))"

subsection \<open>\<^verbatim>\<open>Media.create\<close>\<close>

text \<open>
  The deployer is looked up first and its absence throws. Then the resource is created,
  its folder is cleared, the full file is deployed under \<^verbatim>\<open>options.filename\<close>, and a
  thumbnail that was generated (a \<^verbatim>\<open>Buffer\<close>, hence truthy) is deployed as
  \<^verbatim>\<open>thumbnail.jpg\<close>. An exception leaves the state as it was when it was thrown.
\<close>

definition Media_create ::
  "externals \<Rightarrow> media_state \<Rightarrow> ctx \<Rightarrow> media_data \<Rightarrow> create_options
     \<Rightarrow> (js_error + media) \<times> media_state" where
  "Media_create ext s c data opts =
     (case getDeployer s of
        None \<Rightarrow> (Inl (Error ''No media deployer configured''), s)
      | Some deployer \<Rightarrow>
          (case superCreate ext s c data opts of
             (Inl e, s1) \<Rightarrow> (Inl e, s1)
           | (Inr resource, s1) \<Rightarrow>
               (let s2 = s1\<lparr>storage := removeFolder (getPath [mid resource]) (storage s1)\<rparr>;
                    s3 = s2\<lparr>storage :=
                            setFile (getPath [mid resource, optFilename opts]) (full opts)
                              (storage s2)\<rparr>
                in case snd (generateThumbnail ext c (optFilename opts)
                               (fromBase64 ext (full opts)) 200 200) of
                     Inl e \<Rightarrow> (Inl e, s3)
                   | Inr None \<Rightarrow> (Inr resource, s3)
                   | Inr (Some thumbnail) \<Rightarrow>
                       (Inr resource,
                        s3\<lparr>storage :=
                             setFile (getPath [mid resource, thumbnail_jpg])
                               (toBase64 ext thumbnail) (storage s3)\<rparr>))))"

subsection \<open>\<^verbatim>\<open>Media.get\<close>\<close>

text \<open>
  \<^verbatim>\<open>files\<close> is the folder of the identifier when there is a deployer, else empty. The
  loop skips \<^verbatim>\<open>thumbnail.jpg\<close> and, where the database had no record, makes a resource
  of the first other file.
\<close>

definition deployed_files :: "media_state \<Rightarrow> string \<Rightarrow> path list" where
  "deployed_files s i =
     (case getDeployer s of
        None \<Rightarrow> []
      | Some deployer \<Rightarrow> getFolder (getPath [i]) None (storage s))"

definition associate :: "ctx \<Rightarrow> string \<Rightarrow> path \<Rightarrow> media option \<Rightarrow> media option" where
  "associate c i file resource =
     (if basename file = thumbnail_jpg then resource
      else if resource = None
      then Some \<lparr>mid = i, filename = Some (basename file), mcontext = Some c, metadata = None\<rparr>
      else resource)"

definition Media_get :: "media_state \<Rightarrow> ctx \<Rightarrow> string \<Rightarrow> media option" where
  "Media_get s c i = fold (associate c i) (deployed_files s i) (Resource_get s i)"

subsection \<open>\<^verbatim>\<open>Media.remove\<close>\<close>

text \<open>
  An instance method: \<open>s\<close> is the state that the context of the resource sees. The
  record is removed first. The deployer is then looked up through \<^verbatim>\<open>this.context\<close>,
  and \<^verbatim>\<open>getDeployer\<close> requires a context (its \<^verbatim>\<open>checkParam\<close> has the flag set): on a
  resource that has none the method throws there, with the record gone and the folder in
  place; what \<^verbatim>\<open>checkParam\<close> throws is written as a \<^verbatim>\<open>TypeError\<close> of the parameter.
  Otherwise the folder of the identifier is removed when there is a deployer.
\<close>

definition Media_remove :: "media_state \<Rightarrow> media \<Rightarrow> js_error option \<times> media_state" where
  "Media_remove s this =
     (let s1 = Resource_remove s (mid this)
      in case mcontext this of
           None \<Rightarrow> (Some (TypeError ''context''), s1)
         | Some c \<Rightarrow>
             (case getDeployer s1 of
                None \<Rightarrow> (None, s1)
              | Some deployer \<Rightarrow>
                  (None, s1\<lparr>storage := removeFolder (getPath [mid this]) (storage s1)\<rparr>)))"

subsection \<open>\<^verbatim>\<open>Media.list\<close>\<close>

text \<open>
  \<^verbatim>\<open>resourceMap\<close> is a plain object keyed by identifier. Its own properties are held
  here as an association list in the order they were created. \<^verbatim>\<open>Object.values\<close>
  enumerates the own properties whose key is an array index (the canonical decimal form
  of an integer below \<open>2\<^sup>3\<^sup>2 - 1\<close>) first, in ascending numeric order, then the others
  in creation order.
\<close>

definition digit :: "char \<Rightarrow> bool" where
  "digit ch = (CHR ''0'' \<le> ch \<and> ch \<le> CHR ''9'')"

definition numeric_value :: "string \<Rightarrow> nat" where
  "numeric_value k = foldl (\<lambda>a ch. 10 * a + (of_char ch - 48)) 0 k"

definition array_index :: "string \<Rightarrow> bool" where
  "array_index k =
     (k \<noteq> [] \<and> list_all digit k \<and> (k = ''0'' \<or> hd k \<noteq> CHR ''0'') \<and>
      numeric_value k < 4294967295)"

definition Object_values :: "(string \<times> 'a) list \<Rightarrow> 'a list" where
  "Object_values m =
     map snd (sort_key (\<lambda>e. numeric_value (fst e)) (filter (\<lambda>e. array_index (fst e)) m) @
              filter (\<lambda>e. \<not> array_index (fst e)) m)"

text \<open>\<^verbatim>\<open>new Media({ id: id })\<close>\<close>

definition new_Media :: "string \<Rightarrow> media" where
  "new_Media i = \<lparr>mid = i, filename = None, mcontext = None, metadata = None\<rparr>"

text \<open>\<^verbatim>\<open>files\<close>: what the deployer lists two levels below its root, if there is one.\<close>

definition all_files :: "media_state \<Rightarrow> path list" where
  "all_files s =
     (case getDeployer s of
        None \<Rightarrow> []
      | Some deployer \<Rightarrow> getFolder (getPath []) (Some 2) (storage s))"

text \<open>
  A plain object also has, through its prototype, the properties of
  \<^verbatim>\<open>Object.prototype\<close>. As the language defines them these are eleven functions and
  the accessor \<^verbatim>\<open>__proto__\<close>, which reads as the prototype itself; code that adds
  properties to \<^verbatim>\<open>Object.prototype\<close> is not considered. The read
  \<^verbatim>\<open>resourceMap[id]\<close> finds an own property or, failing that, an inherited one, and
  every one of these is truthy. The assignment \<^verbatim>\<open>resourceMap[id] = resource\<close> makes or
  overwrites an own property, except under the key \<^verbatim>\<open>__proto__\<close>, where it makes none
  and replaces the prototype of \<^verbatim>\<open>resourceMap\<close> by the resource.
\<close>

definition prototype_keys :: "string list" where
  "prototype_keys =
     [''constructor'', ''__defineGetter__'', ''__defineSetter__'', ''hasOwnProperty'',
      ''__lookupGetter__'', ''__lookupSetter__'', ''isPrototypeOf'', ''propertyIsEnumerable'',
      ''toString'', ''valueOf'', ''toLocaleString'']"

definition inherited :: "(string \<times> media) list \<Rightarrow> string \<Rightarrow> bool" where
  "inherited resourceMap k = (map_of resourceMap k = None \<and> k \<in> set prototype_keys)"

text \<open>
  One round of the loop over \<^verbatim>\<open>files\<close> where \<^verbatim>\<open>resourceMap[id]\<close> is an own property
  or nothing at all: \<^verbatim>\<open>thumbnail.jpg\<close> is skipped; an identifier with no entry gets a
  new resource; the entry takes the context and the file name.
\<close>

definition associate_file :: "ctx \<Rightarrow> path \<Rightarrow> (string \<times> media) list \<Rightarrow> (string \<times> media) list" where
  "associate_file c file resourceMap =
     (if basename file = thumbnail_jpg then resourceMap
      else
        AList.map_entry (basename (dirname file))
          (\<lambda>r. r\<lparr>mcontext := Some c, filename := Some (basename file)\<rparr>)
          (if map_of resourceMap (basename (dirname file)) = None
           then AList.update (basename (dirname file)) (new_Media (basename (dirname file)))
                  resourceMap
           else resourceMap))"

text \<open>
  Where the method has written to the prototype chain of \<^verbatim>\<open>resourceMap\<close> (its
  prototype is now a media resource, or \<^verbatim>\<open>Object.prototype\<close> has been given the
  properties \<^verbatim>\<open>context\<close> and \<^verbatim>\<open>filename\<close>), a later read or assignment of
  \<^verbatim>\<open>resourceMap[id]\<close> goes through properties that the entity classes declare, and
  these are not among the sources: \<open>Beyond_sources\<close> says that the method has made such
  a read or assignment, and the model follows it no further.
\<close>

datatype 'a traced = Traced 'a | Beyond_sources

text \<open>
  The first loop, \<^verbatim>\<open>resourceMap[resource.id] = resource\<close>, on the own properties and
  on whether the prototype chain has been written.
\<close>

fun enter_records ::
  "media list \<Rightarrow> (string \<times> media) list \<times> bool \<Rightarrow> ((string \<times> media) list \<times> bool) traced" where
  "enter_records [] state = Traced state"
| "enter_records (resource # resources) (resourceMap, written) =
     (if mid resource = ''__proto__'' then enter_records resources (resourceMap, True)
      else if written then Beyond_sources
      else enter_records resources (AList.update (mid resource) resource resourceMap, False))"

text \<open>
  The second loop. A file named \<^verbatim>\<open>thumbnail.jpg\<close> is skipped before \<^verbatim>\<open>resourceMap\<close>
  is touched. For the folder \<^verbatim>\<open>__proto__\<close> the guard finds \<^verbatim>\<open>Object.prototype\<close>, makes
  no resource, and the two assignments give \<^verbatim>\<open>Object.prototype\<close> a \<^verbatim>\<open>context\<close> and a
  \<^verbatim>\<open>filename\<close>. For a folder named like an inherited function that has no own
  property the guard finds the function, makes no resource, and the two assignments
  land on the function: the own properties stay as they are. Every other round is
  \<open>associate_file\<close>.
\<close>

fun associate_files ::
  "ctx \<Rightarrow> path list \<Rightarrow> (string \<times> media) list \<times> bool \<Rightarrow> (string \<times> media) list traced" where
  "associate_files c [] (resourceMap, written) = Traced resourceMap"
| "associate_files c (file # files) (resourceMap, written) =
     (if basename file = thumbnail_jpg then associate_files c files (resourceMap, written)
      else if written then Beyond_sources
      else if basename (dirname file) = ''__proto__''
      then associate_files c files (resourceMap, True)
      else if inherited resourceMap (basename (dirname file))
      then associate_files c files (resourceMap, written)
      else associate_files c files (associate_file c file resourceMap, written))"

text \<open>
  The records of the database enter the map by identifier, the files are associated, and
  the values of the own properties are sorted by \<^verbatim>\<open>getName()\<close> with the comparator
  \<^verbatim>\<open>a === b ? 0 : a < b ? -1 : 1\<close>; the sort keeps the order of equal names.
\<close>

definition Media_list :: "externals \<Rightarrow> media_state \<Rightarrow> ctx \<Rightarrow> media list traced" where
  "Media_list ext s c =
     (case enter_records (Resource_list s) ([], False) of
        Beyond_sources \<Rightarrow> Beyond_sources
      | Traced state \<Rightarrow>
          (case associate_files c (all_files s) state of
             Beyond_sources \<Rightarrow> Beyond_sources
           | Traced resourceMap \<Rightarrow>
               Traced (sort_key (getName ext) (Object_values resourceMap))))"

section \<open>Example inputs\<close>

subsection \<open>Schemas\<close>

text \<open>
  The schema \<^verbatim>\<open>article\<close> with the parent \<^verbatim>\<open>page\<close>, and two schemas that name each
  other as parent.
\<close>

definition page :: schema where
  "page = \<lparr>sid = ''page'', stype = ''content'', isLocked = False, parentSchemaId = None,
            schemaFields = [''title'' \<mapsto> ''string'']\<rparr>"

definition article :: schema where
  "article = \<lparr>sid = ''article'', stype = ''content'', isLocked = False,
               parentSchemaId = Some ''page'', schemaFields = [''body'' \<mapsto> ''richText'']\<rparr>"



text \<open>An installation with no schema files and no synchronisation: custom records only.\<close>

definition custom_services :: "(string \<Rightarrow> schema option) \<Rightarrow> services" where
  "custom_services db =
     \<lparr>listCore = (\<lambda>i. []), listPlugin = (\<lambda>i. []),
      readJson = (\<lambda>f. Inl (Error ''ENOENT'')), typeTag = (\<lambda>f. []),
      findOne = (\<lambda>project collection i. db i),
      getResourceItem = (\<lambda>project environment i. None)\<rparr>"

definition article_db :: "string \<Rightarrow> schema option" where
  "article_db i = (if i = ''article'' then Some article
                   else if i = ''page'' then Some page else None)"


definition with_parent_fields :: options where
  "with_parent_fields = no_options\<lparr>withParentFields := True\<rparr>"

text \<open>
  An installation where \<^verbatim>\<open>string\<close> is a built-in schema that a plugin ships as well,
  \<^verbatim>\<open>map\<close> is a plugin schema, \<^verbatim>\<open>hero\<close> is a custom record and \<^verbatim>\<open>remote\<close> exists on
  the synchronisation source only.
\<close>

definition string_json :: schema where
  "string_json = \<lparr>sid = [], stype = [], isLocked = False, parentSchemaId = Some ''fieldBase'',
                   schemaFields = Map.empty\<rparr>"

definition hero :: schema where
  "hero = \<lparr>sid = ''hero'', stype = ''content'', isLocked = False,
            parentSchemaId = Some ''page'', schemaFields = [''image'' \<mapsto> ''mediaReference'']\<rparr>"

definition remote :: schema where
  "remote = \<lparr>sid = ''remote'', stype = ''content'', isLocked = False,
              parentSchemaId = Some ''page'', schemaFields = Map.empty\<rparr>"

definition shipped_services :: services where
  "shipped_services =
     \<lparr>listCore = (\<lambda>i. if i = ''string'' then [''/app/schema/field/string.json''] else []),
      listPlugin = (\<lambda>i. if i = ''string'' then [''/app/plugins/geo/schema/field/string.json'']
                         else if i = ''map'' then [''/app/plugins/geo/schema/field/map.json'']
                         else []),
      readJson = (\<lambda>f. Inr string_json), typeTag = (\<lambda>f. ''field''),
      findOne = (\<lambda>project collection i. if i = ''hero'' then Some hero else None),
      getResourceItem = (\<lambda>project environment i. if i = ''remote'' then Some remote else None)\<rparr>"

definition custom_only :: options where
  "custom_only = no_options\<lparr>customOnly := True\<rparr>"

subsection \<open>Media\<close>

definition slash_join :: "string list \<Rightarrow> string" where
  "slash_join segments = foldr (\<lambda>a b. if b = [] then a else a @ ''/'' @ b) segments []"

text \<open>
  Services that all succeed: the new resource gets the identifier \<^verbatim>\<open>abc\<close>, the
  conversion leaves \<^verbatim>\<open>SCALED\<close> to read back, and \<^verbatim>\<open>logo.svg\<close> is the one SVG.
\<close>

definition example_ext :: externals where
  "example_ext =
     \<lparr>superCreate = (\<lambda>s c data opts.
        (Inr \<lparr>mid = ''abc'', filename = Some (dataFilename data), mcontext = Some c,
               metadata = Some ''{}''\<rparr>,
         s\<lparr>database := database s @
              [\<lparr>mid = ''abc'', filename = Some (dataFilename data), mcontext = Some c,
                metadata = Some ''{}''\<rparr>]\<rparr>)),
      getMIMEType = (\<lambda>name. if name = ''logo.svg'' then ''image/svg+xml'' else ''image/jpeg''),
      APP_ROOT = ''/app'',
      pathJoin = slash_join,
      pathExtname = (\<lambda>name. if name = ''logo.svg'' then ''.svg'' else ''.jpg''),
      makeDirectory = (\<lambda>folder. None),
      writeFile = (\<lambda>data file. None),
      exec = (\<lambda>command. None),
      readFile = (\<lambda>file. Inr ''SCALED''),
      removePath = (\<lambda>folder. None),
      fromBase64 = (\<lambda>s. s),
      toBase64 = (\<lambda>s. s),
      getName = (\<lambda>m. case filename m of None \<Rightarrow> [] | Some name \<Rightarrow> name)\<rparr>"

text \<open>The same services on a machine where the conversion program is missing.\<close>

definition broken_convert :: externals where
  "broken_convert = example_ext\<lparr>exec := (\<lambda>command. Some (Error ''convert: not found''))\<rparr>"

definition live :: ctx where
  "live = \<lparr>projectId = ''project'', environmentName = ''live''\<rparr>"

definition empty_state :: "deployer_settings option \<Rightarrow> media_state" where
  "empty_state settings = \<lparr>mediaDeployer = settings, storage = [], database = []\<rparr>"

definition filesystem :: deployer_settings where
  "filesystem = \<lparr>deployerAlias = Some ''filesystem''\<rparr>"

definition photo :: media_data where
  "photo = \<lparr>dataFilename = ''photo.jpg''\<rparr>"

definition upload :: "string \<Rightarrow> create_options" where
  "upload name = \<lparr>full = ''FULL'', optFilename = name\<rparr>"

text \<open>
  A record with its two deployed files; the same files with no record; a thumbnail alone;
  and a database of two records beside the files of one of them and of an identifier that
  has no record.
\<close>

definition abc :: media where
  "abc = \<lparr>mid = ''abc'', filename = Some ''photo.jpg'', mcontext = Some live,
           metadata = Some ''{}''\<rparr>"

definition lonely :: media where
  "lonely = \<lparr>mid = ''lonely'', filename = Some ''beach.jpg'', mcontext = None,
              metadata = Some ''{}''\<rparr>"

definition stored :: media_state where
  "stored =
     \<lparr>mediaDeployer = Some filesystem,
      storage = [([''abc'', ''thumbnail.jpg''], ''SCALED''), ([''abc'', ''photo.jpg''], ''FULL'')],
      database = [abc]\<rparr>"

definition orphaned :: media_state where
  "orphaned =
     \<lparr>mediaDeployer = Some filesystem,
      storage = [([''abc'', ''thumbnail.jpg''], ''SCALED''), ([''abc'', ''photo.jpg''], ''FULL'')],
      database = []\<rparr>"

definition thumbnail_only :: media_state where
  "thumbnail_only =
     \<lparr>mediaDeployer = Some filesystem,
      storage = [([''abc'', ''thumbnail.jpg''], ''SCALED'')],
      database = []\<rparr>"

definition mixed :: media_state where
  "mixed =
     \<lparr>mediaDeployer = Some filesystem,
      storage = [([''abc'', ''thumbnail.jpg''], ''SCALED''), ([''abc'', ''photo.jpg''], ''FULL''),
                 ([''42'', ''zebra.png''], ''ZEBRA'')],
      database = [abc, lonely]\<rparr>"

text \<open>
  A record and its file in an environment with no deployer, and a deployed folder that is
  named like a function of \<^verbatim>\<open>Object.prototype\<close> and has no record.
\<close>

definition unconfigured :: media_state where
  "unconfigured =
     \<lparr>mediaDeployer = None, storage = [([''abc'', ''photo.jpg''], ''FULL'')], database = [abc]\<rparr>"

definition constructor_folder :: media_state where
  "constructor_folder =
     \<lparr>mediaDeployer = Some filesystem,
      storage = [([''constructor'', ''photo.jpg''], ''FULL'')],
      database = []\<rparr>"

section \<open>Notions the properties are stated with\<close>

text \<open>The tier of a call: built-in files, plugin files, the file read, database, synchronisation.\<close>

definition tier :: "call \<Rightarrow> nat" where
  "tier c = (case c of FileList_core \<Rightarrow> 0 | FileList_plugin \<Rightarrow> 1 | FileRead f \<Rightarrow> 2
             | Database_findOne \<Rightarrow> 3 | Sync_getResourceItem \<Rightarrow> 4)"

text \<open>What reading the schema file \<open>f\<close> for the identifier \<open>i\<close> yields.\<close>

definition stamped :: "services \<Rightarrow> string \<Rightarrow> string \<Rightarrow> js_error + schema option" where
  "stamped sv i f =
     (case readJson sv f of
        Inl e \<Rightarrow> Inl e
      | Inr d \<Rightarrow> Inr (Some (d\<lparr>sid := i, stype := typeTag sv f, isLocked := True\<rparr>)))"

text \<open>The five calls of a thumbnail generation that runs to its end.\<close>

definition five_calls :: "externals \<Rightarrow> ctx \<Rightarrow> string \<Rightarrow> string \<Rightarrow> nat \<Rightarrow> nat \<Rightarrow> fs_call list" where
  "five_calls ext c name data width height =
     [MakeDirectory (tempFolder ext c), Write data (tempFile ext c name),
      Exec (convert_command (tempFile ext c name) width height),
      Read (tempFile ext c name), Remove (tempFolder ext c)]"

text \<open>The resource \<^verbatim>\<open>Media.get\<close> makes of a deployed file: identifier, file name, context.\<close>

definition synthesized :: "ctx \<Rightarrow> string \<Rightarrow> path \<Rightarrow> media" where
  "synthesized c i file =
     \<lparr>mid = i, filename = Some (basename file), mcontext = Some c, metadata = None\<rparr>"

text \<open>The identifiers that have a deployed file other than \<^verbatim>\<open>thumbnail.jpg\<close>.\<close>

definition file_ids :: "path list \<Rightarrow> string set" where
  "file_ids files =
     set (map (\<lambda>f. basename (dirname f)) (filter (\<lambda>f. basename f \<noteq> thumbnail_jpg) files))"

text \<open>The map \<^verbatim>\<open>Media.list\<close> starts from, and what a file does to the entry it meets.\<close>

definition from_database :: "media list \<Rightarrow> (string \<times> media) list" where
  "from_database db = fold (\<lambda>resource. AList.update (mid resource) resource) db []"

definition touched :: "ctx \<Rightarrow> path \<Rightarrow> media \<Rightarrow> media" where
  "touched c file r = r\<lparr>mcontext := Some c, filename := Some (basename file)\<rparr>"

text \<open>
  What holds of the entry \<open>v\<close> under the key \<open>k\<close> once the files \<open>files\<close> are
  associated: it carries its key; with no file it is a record of the database; with a file
  it has the context and the name of one of the files, and no metadata unless the database
  has a record of the key.
\<close>

definition listed :: "ctx \<Rightarrow> media list \<Rightarrow> path list \<Rightarrow> string \<Rightarrow> media \<Rightarrow> bool" where
  "listed c db files k v =
     (mid v = k \<and>
      (k \<notin> file_ids files \<longrightarrow> v \<in> set db) \<and>
      (k \<in> file_ids files \<longrightarrow>
         mcontext v = Some c \<and>
         (\<exists>f. f \<in> set files \<and> basename f \<noteq> thumbnail_jpg \<and> basename (dirname f) = k \<and>
              filename v = Some (basename f)) \<and>
         (k \<notin> mid ` set db \<longrightarrow> metadata v = None)))"

text \<open>
  The list \<^verbatim>\<open>Media.list\<close> returns where every round of its second loop is
  \<open>associate_file\<close>.
\<close>

definition listing :: "externals \<Rightarrow> media_state \<Rightarrow> ctx \<Rightarrow> media list" where
  "listing ext s c =
     sort_key (getName ext)
       (Object_values (fold (associate_file c) (all_files s) (from_database (database s))))"

section \<open>Schema resolution\<close>

subsection \<open>Helper facts\<close>

lemma find_data_custom:
  "snd (find_data (custom_services db) p e i opts) =
     Inr (if nativeOnly opts then None else db i)"
  by (simp add: find_data_def native_data_def custom_data_def synced_data_def
        custom_services_def schemaPath_def js_or_def split: option.splits)


text \<open>
  Were the global \<^verbatim>\<open>query\<close> bound to an object with a truthy \<^verbatim>\<open>withParentFields\<close>,
  the walk would give \<^verbatim>\<open>article\<close> the fields of \<^verbatim>\<open>page\<close>, whatever the options say.
\<close>

lemma get_article_query_value:
  "SchemaBase_get (Suc (Suc (Suc (Suc n)))) (custom_services article_db) (Query_value True)
     ''project'' ''live'' ''article'' no_options =
   Some (Inr (ContentSchema
     (article\<lparr>schemaFields := [''title'' \<mapsto> ''string'', ''body'' \<mapsto> ''richText'']\<rparr>)))"
  by (simp add: find_data_custom no_options_def article_db_def article_def page_def
        instantiate_def merge_def)

text \<open>Whenever no source has the schema, the read of \<^verbatim>\<open>data.type\<close> throws.\<close>

lemma get_nothing_found:
  "snd (find_data sv p e i opts) = Inr None \<Longrightarrow>
   SchemaBase_get (Suc n) sv q p e i opts = Some (Inl (TypeError ''type''))"
  by simp



subsection \<open>Parent fields\<close>

text \<open>
  C1. Resolving a schema with \<^verbatim>\<open>options.withParentFields\<close> is to return the union of
  its fields and its ancestors' fields; for \<^verbatim>\<open>article\<close> (parent \<^verbatim>\<open>page\<close>, field
  \<^verbatim>\<open>body\<close>) and \<^verbatim>\<open>page\<close> (field \<^verbatim>\<open>title\<close>) that is \<^verbatim>\<open>title\<close> and \<^verbatim>\<open>body\<close>.
  The method tests \<^verbatim>\<open>query.withParentFields\<close>, and \<^verbatim>\<open>query\<close> is not declared: on
  this very example the call ends in a \<^verbatim>\<open>ReferenceError\<close>, with any fuel.
\<close>

theorem get_article_with_parent_fields:
  "SchemaBase_get (Suc n) (custom_services article_db) Query_undeclared ''project'' ''live''
     ''article'' with_parent_fields = Some (Inl (ReferenceError ''query''))"
  by (simp add: find_data_custom with_parent_fields_def no_options_def article_db_def)

subsection \<open>Cycles\<close>




subsection \<open>A schema that no source has\<close>

text \<open>
  C3. For an identifier that no built-in file, no plugin file, no custom record and no
  synchronised copy stands for, \<^verbatim>\<open>get\<close> is to return \<^verbatim>\<open>null\<close>. It throws instead:
  \<^verbatim>\<open>data\<close> is \<^verbatim>\<open>null\<close> when \<^verbatim>\<open>data.type\<close> is read. Here no source has any schema,
  and the outcome is the \<^verbatim>\<open>TypeError\<close> for every identifier, every choice of options
  and every binding of \<^verbatim>\<open>query\<close>.
\<close>

theorem get_absent_schema:
  "SchemaBase_get (Suc n) (custom_services (\<lambda>i. None)) q ''project'' ''live'' i opts =
     Some (Inl (TypeError ''type''))"
  by (simp add: find_data_custom)

subsection \<open>The order of the sources\<close>

text \<open>
  The three lookup blocks consult the sources in a fixed order, with short-circuiting:
  \<^item> with \<^verbatim>\<open>customOnly\<close> no file is listed or read;
  \<^item> without it the built-in files are listed first and the plugin files second;
  \<^item> a built-in file, when there is one, is the one read, a plugin file only when there
    is no built-in one;
  \<^item> a file that is read decides the result, and its record is locked;
  \<^item> the database is asked exactly when no file was read and \<^verbatim>\<open>nativeOnly\<close> is unset;
  \<^item> the synchronisation source is asked exactly when no file was read, the database had
    no record, and neither \<^verbatim>\<open>localOnly\<close> nor \<^verbatim>\<open>nativeOnly\<close> is set;
  \<^item> the last source asked gives the result;
  \<^item> the calls come in the order of their tiers, each tier at most once.
\<close>

theorem get_sources_in_order:
  "(customOnly opts \<longrightarrow>
      FileList_core \<notin> set (fst (find_data sv p e i opts)) \<and>
      FileList_plugin \<notin> set (fst (find_data sv p e i opts)) \<and>
      (\<forall>f. FileRead f \<notin> set (fst (find_data sv p e i opts)))) \<and>
   (\<not> customOnly opts \<longrightarrow>
      take 2 (fst (find_data sv p e i opts)) = [FileList_core, FileList_plugin]) \<and>
   (\<not> customOnly opts \<longrightarrow> truthy (index0 (listCore sv i)) \<longrightarrow>
      FileRead (the (index0 (listCore sv i))) \<in> set (fst (find_data sv p e i opts))) \<and>
   (\<not> customOnly opts \<longrightarrow> \<not> truthy (index0 (listCore sv i)) \<longrightarrow>
      truthy (index0 (listPlugin sv i)) \<longrightarrow>
      FileRead (the (index0 (listPlugin sv i))) \<in> set (fst (find_data sv p e i opts))) \<and>
   (\<forall>f. FileRead f \<in> set (fst (find_data sv p e i opts)) \<longrightarrow>
      snd (find_data sv p e i opts) = stamped sv i f) \<and>
   (\<forall>f d. stamped sv i f = Inr (Some d) \<longrightarrow> isLocked d) \<and>
   (Database_findOne \<in> set (fst (find_data sv p e i opts)) \<longleftrightarrow>
      (\<forall>f. FileRead f \<notin> set (fst (find_data sv p e i opts))) \<and> \<not> nativeOnly opts) \<and>
   (Sync_getResourceItem \<in> set (fst (find_data sv p e i opts)) \<longleftrightarrow>
      (\<forall>f. FileRead f \<notin> set (fst (find_data sv p e i opts))) \<and>
      findOne sv p (e @ ''.schemas'') i = None \<and> \<not> localOnly opts \<and> \<not> nativeOnly opts) \<and>
   (Database_findOne \<in> set (fst (find_data sv p e i opts)) \<longrightarrow>
    Sync_getResourceItem \<notin> set (fst (find_data sv p e i opts)) \<longrightarrow>
      snd (find_data sv p e i opts) = Inr (findOne sv p (e @ ''.schemas'') i)) \<and>
   (Sync_getResourceItem \<in> set (fst (find_data sv p e i opts)) \<longrightarrow>
      snd (find_data sv p e i opts) = Inr (getResourceItem sv p e i)) \<and>
   sorted (map tier (fst (find_data sv p e i opts))) \<and>
   distinct (map tier (fst (find_data sv p e i opts)))"
  by (auto simp: find_data_def native_data_def custom_data_def synced_data_def schemaPath_def
        js_or_def stamped_def tier_def split: sum.splits option.splits)

theorem get_sources_in_order_witness:
  "customOnly custom_only \<and>
   FileList_core \<notin> set (fst (find_data shipped_services ''project'' ''live'' ''hero'' custom_only)) \<and>
   Database_findOne \<in> set (fst (find_data shipped_services ''project'' ''live'' ''hero'' custom_only)) \<and>
   snd (find_data shipped_services ''project'' ''live'' ''hero'' custom_only) = Inr (Some hero) \<and>
   truthy (index0 (listCore shipped_services ''string'')) \<and>
   truthy (index0 (listPlugin shipped_services ''string'')) \<and>
   FileRead ''/app/schema/field/string.json'' \<in>
     set (fst (find_data shipped_services ''project'' ''live'' ''string'' no_options)) \<and>
   Database_findOne \<notin>
     set (fst (find_data shipped_services ''project'' ''live'' ''string'' no_options)) \<and>
   snd (find_data shipped_services ''project'' ''live'' ''string'' no_options) =
     Inr (Some (string_json\<lparr>sid := ''string'', stype := ''field'', isLocked := True\<rparr>)) \<and>
   FileRead ''/app/plugins/geo/schema/field/map.json'' \<in>
     set (fst (find_data shipped_services ''project'' ''live'' ''map'' no_options)) \<and>
   Sync_getResourceItem \<in>
     set (fst (find_data shipped_services ''project'' ''live'' ''remote'' no_options)) \<and>
   snd (find_data shipped_services ''project'' ''live'' ''remote'' no_options) =
     Inr (Some remote)"
proof -
  note order = get_sources_in_order [where sv = shipped_services and p = "''project''"
    and e = "''live''"]
  have opts: "customOnly custom_only" "\<not> nativeOnly custom_only" "\<not> customOnly no_options"
    "\<not> nativeOnly no_options" "\<not> localOnly no_options"
    by (simp_all add: custom_only_def no_options_def)
  have lists: "index0 (listCore shipped_services ''string'') = Some ''/app/schema/field/string.json''"
    "index0 (listPlugin shipped_services ''string'') =
       Some ''/app/plugins/geo/schema/field/string.json''"
    "index0 (listCore shipped_services ''map'') = None"
    "index0 (listPlugin shipped_services ''map'') = Some ''/app/plugins/geo/schema/field/map.json''"
    "index0 (listCore shipped_services ''remote'') = None"
    "index0 (listPlugin shipped_services ''remote'') = None"
    by (simp_all add: shipped_services_def)
  have records: "findOne shipped_services ''project'' (''live'' @ ''.schemas'') ''hero'' = Some hero"
    "findOne shipped_services ''project'' (''live'' @ ''.schemas'') ''remote'' = None"
    "getResourceItem shipped_services ''project'' ''live'' ''remote'' = Some remote"
    "stamped shipped_services ''string'' ''/app/schema/field/string.json'' =
       Inr (Some (string_json\<lparr>sid := ''string'', stype := ''field'', isLocked := True\<rparr>))"
    by (simp_all add: shipped_services_def stamped_def)
  have hero1: "FileList_core \<notin> set (fst (find_data shipped_services ''project'' ''live'' ''hero'' custom_only))"
    and hero2: "\<forall>f. FileRead f \<notin> set (fst (find_data shipped_services ''project'' ''live'' ''hero'' custom_only))"
    using order [of custom_only "''hero''"] opts by blast+
  have hero3: "Database_findOne \<in> set (fst (find_data shipped_services ''project'' ''live'' ''hero'' custom_only))"
    using order [of custom_only "''hero''"] opts hero2 by blast
  have hero4: "Sync_getResourceItem \<notin> set (fst (find_data shipped_services ''project'' ''live'' ''hero'' custom_only))"
    using order [of custom_only "''hero''"] records by simp
  have hero5: "snd (find_data shipped_services ''project'' ''live'' ''hero'' custom_only) = Inr (Some hero)"
    using order [of custom_only "''hero''"] hero3 hero4 records by simp
  have string1: "FileRead ''/app/schema/field/string.json'' \<in>
      set (fst (find_data shipped_services ''project'' ''live'' ''string'' no_options))"
    using order [of no_options "''string''"] opts lists by simp
  have string2: "Database_findOne \<notin>
      set (fst (find_data shipped_services ''project'' ''live'' ''string'' no_options))"
    using order [of no_options "''string''"] string1 by blast
  have string3: "snd (find_data shipped_services ''project'' ''live'' ''string'' no_options) =
      Inr (Some (string_json\<lparr>sid := ''string'', stype := ''field'', isLocked := True\<rparr>))"
    using order [of no_options "''string''"] string1 records by metis
  have map1: "FileRead ''/app/plugins/geo/schema/field/map.json'' \<in>
      set (fst (find_data shipped_services ''project'' ''live'' ''map'' no_options))"
    using order [of no_options "''map''"] opts lists by simp
  have remote0: "\<forall>f. FileRead f \<notin>
      set (fst (find_data shipped_services ''project'' ''live'' ''remote'' no_options))"
    by (simp add: find_data_def native_data_def custom_data_def synced_data_def schemaPath_def
          js_or_def lists opts)
  have remote1: "Sync_getResourceItem \<in>
      set (fst (find_data shipped_services ''project'' ''live'' ''remote'' no_options))"
    using order [of no_options "''remote''"] opts records remote0 by blast
  have remote2: "snd (find_data shipped_services ''project'' ''live'' ''remote'' no_options) =
      Inr (Some remote)"
    using order [of no_options "''remote''"] remote1 records by simp
  from opts lists hero1 hero3 hero5 string1 string2 string3 map1 remote1 remote2
  show ?thesis by simp
qed

text \<open>
  Where \<^verbatim>\<open>Options\<close> and \<^verbatim>\<open>Path\<close> are bound, the whole method returns what
  \<open>SchemaBase_get\<close> returns, and the calls it has made begin with those of the three
  lookup blocks.
\<close>

lemma get_call_bound_aux:
  assumes "has_Options g" "has_Path g"
  shows "(\<forall>i opts. map_option snd (SchemaBase_get_call n sv g p e i opts) =
            SchemaBase_get n sv (query_binding g) p e i opts) \<and>
         (\<forall>c m. map_option snd (parent_walk_call n sv g p e c m) =
            parent_walk n sv (query_binding g) p e c m)"
proof (induction n)
  case 0
  show ?case by simp
next
  case (Suc n)
  then have get: "\<And>i opts. map_option snd (SchemaBase_get_call n sv g p e i opts) =
            SchemaBase_get n sv (query_binding g) p e i opts"
    and walk: "\<And>c m. map_option snd (parent_walk_call n sv g p e c m) =
            parent_walk n sv (query_binding g) p e c m"
    by blast+
  have "map_option snd (SchemaBase_get_call (Suc n) sv g p e i opts) =
            SchemaBase_get (Suc n) sv (query_binding g) p e i opts" for i opts
    using assms walk [symmetric]
    by (auto split: prod.splits sum.splits option.splits query_global.splits)
  moreover have "map_option snd (parent_walk_call (Suc n) sv g p e c m) =
            parent_walk (Suc n) sv (query_binding g) p e c m" for c m
    using get [symmetric] walk [symmetric]
    by (auto split: prod.splits sum.splits option.splits)
  ultimately show ?case by blast
qed

lemma get_call_bound:
  "has_Options g \<Longrightarrow> has_Path g \<Longrightarrow>
   map_option snd (SchemaBase_get_call n sv g p e i opts) =
     SchemaBase_get n sv (query_binding g) p e i opts"
  using get_call_bound_aux [of g n sv p e] by blast

lemma get_call_order:
  "has_Options g \<Longrightarrow> customOnly opts \<or> has_Path g \<Longrightarrow>
   SchemaBase_get_call (Suc n) sv g p e i opts = Some (calls, r) \<Longrightarrow>
   take (length (fst (find_data sv p e i opts))) calls = fst (find_data sv p e i opts)"
  by (auto split: prod.splits sum.splits option.splits query_global.splits if_splits)

text \<open>On the sources as they are, the built-in schema \<^verbatim>\<open>string\<close> is not even looked for.\<close>

lemma get_string_schema:
  "SchemaBase_get_call (Suc n) shipped_services
     \<lparr>has_Options = False, has_Path = False, query_binding = Query_undeclared\<rparr>
     ''project'' ''live'' ''string'' no_options =
   Some ([], Inl (ReferenceError ''Options''))"
  by simp

text \<open>
  C4. The sources are to be consulted in a fixed order, with short-circuiting. The three
  lookup blocks do so once they are reached, but the method does not reach them: its
  fourth parameter check names \<^verbatim>\<open>Options\<close>, which nothing declares. With
  \<^verbatim>\<open>Options\<close> unbound every call, whatever the identifier and the options, ends in a
  \<^verbatim>\<open>ReferenceError\<close> before any service has been called.
\<close>

theorem get_consults_nothing:
  "SchemaBase_get_call (Suc n) sv (g\<lparr>has_Options := False\<rparr>) project environment i opts =
     Some ([], Inl (ReferenceError ''Options''))"
  by simp

section \<open>Media\<close>

subsection \<open>Helper facts\<close>

lemma getDeployer_None_iff:
  "getDeployer s = None \<longleftrightarrow>
     mediaDeployer s = None \<or> (\<exists>d. mediaDeployer s = Some d \<and> \<not> truthy (deployerAlias d))"
  by (auto simp: getDeployer_def split: option.splits)

lemma raster_photo: "raster_image example_ext ''photo.jpg''"
  by (simp add: raster_image_def example_ext_def)

lemma raster_broken: "raster_image broken_convert ''photo.jpg''"
  by (simp add: raster_image_def example_ext_def broken_convert_def)

subsection \<open>No deployer\<close>

text \<open>
  C6. In a context whose environment has no media deployer (no \<^verbatim>\<open>mediaDeployer\<close>
  setting, or one whose alias is missing or empty), \<^verbatim>\<open>Media.create\<close> throws the error
  \<^verbatim>\<open>No media deployer configured\<close>.
\<close>

theorem create_without_deployer_fails:
  "mediaDeployer s = None \<or> (\<exists>d. mediaDeployer s = Some d \<and> \<not> truthy (deployerAlias d)) \<Longrightarrow>
   fst (Media_create ext s c data opts) = Inl (Error ''No media deployer configured'')"
  unfolding getDeployer_None_iff [symmetric] by (simp add: Media_create_def)

theorem create_without_deployer_fails_witness:
  "fst (Media_create example_ext (empty_state None) live photo (upload ''photo.jpg'')) =
     Inl (Error ''No media deployer configured'') \<and>
   fst (Media_create example_ext (empty_state (Some \<lparr>deployerAlias = None\<rparr>)) live photo
          (upload ''photo.jpg'')) =
     Inl (Error ''No media deployer configured'') \<and>
   fst (Media_create example_ext (empty_state (Some \<lparr>deployerAlias = Some []\<rparr>)) live photo
          (upload ''photo.jpg'')) =
     Inl (Error ''No media deployer configured'')"
proof -
  have 1: "mediaDeployer (empty_state None) = None \<or>
           (\<exists>d. mediaDeployer (empty_state None) = Some d \<and> \<not> truthy (deployerAlias d))"
    by (simp add: empty_state_def)
  have 2: "mediaDeployer (empty_state (Some \<lparr>deployerAlias = None\<rparr>)) = None \<or>
           (\<exists>d. mediaDeployer (empty_state (Some \<lparr>deployerAlias = None\<rparr>)) = Some d \<and>
                \<not> truthy (deployerAlias d))"
    by (simp add: empty_state_def)
  have 3: "mediaDeployer (empty_state (Some \<lparr>deployerAlias = Some []\<rparr>)) = None \<or>
           (\<exists>d. mediaDeployer (empty_state (Some \<lparr>deployerAlias = Some []\<rparr>)) = Some d \<and>
                \<not> truthy (deployerAlias d))"
    by (simp add: empty_state_def)
  from create_without_deployer_fails [OF 1] create_without_deployer_fails [OF 2]
    create_without_deployer_fails [OF 3]
  show ?thesis by blast
qed

text \<open>
  C10. The deployer is checked before anything is written: with no deployer the state
  after the call is the state before it, and the call is the same whatever the
  resource-creation path would have done, since it is never entered.
\<close>

theorem create_without_deployer_writes_nothing:
  "getDeployer s = None \<Longrightarrow>
   snd (Media_create ext s c data opts) = s \<and>
   Media_create (ext\<lparr>superCreate := create\<rparr>) s c data opts = Media_create ext s c data opts"
  by (simp add: Media_create_def)

theorem create_without_deployer_writes_nothing_witness:
  "getDeployer (empty_state None) = None \<and>
   snd (Media_create example_ext (empty_state None) live photo (upload ''photo.jpg'')) =
     empty_state None"
proof -
  have none: "getDeployer (empty_state None) = None"
    by (simp add: getDeployer_def empty_state_def)
  from create_without_deployer_writes_nothing [OF none] none
  show ?thesis by blast
qed

subsection \<open>The temporary folder of a thumbnail\<close>

text \<open>
  C9, as the code has it. For an image that is not an SVG, a generation that returns a
  thumbnail has made its five calls, the last of which removed the temporary folder. When
  the conversion throws, the method ends there with that exception, after three calls:
  the folder and the file written into it are left behind.
\<close>

theorem thumbnail_cleanup_on_return:
  "raster_image ext name \<Longrightarrow>
   (snd (generateThumbnail ext c name data width height) = Inr (Some scaled) \<longrightarrow>
      fst (generateThumbnail ext c name data width height) =
        five_calls ext c name data width height \<and>
      removePath ext (tempFolder ext c) = None) \<and>
   (makeDirectory ext (tempFolder ext c) = None \<longrightarrow>
    writeFile ext data (tempFile ext c name) = None \<longrightarrow>
    exec ext (convert_command (tempFile ext c name) width height) = Some e \<longrightarrow>
      generateThumbnail ext c name data width height =
        (take 3 (five_calls ext c name data width height), Inl e))"
  by (auto simp: generateThumbnail_def five_calls_def split: option.splits sum.splits)

theorem thumbnail_cleanup_on_return_witness:
  "raster_image example_ext ''photo.jpg'' \<and>
   snd (generateThumbnail example_ext live ''photo.jpg'' ''FULL'' 200 200) =
     Inr (Some ''SCALED'') \<and>
   fst (generateThumbnail example_ext live ''photo.jpg'' ''FULL'' 200 200) =
     five_calls example_ext live ''photo.jpg'' ''FULL'' 200 200 \<and>
   generateThumbnail broken_convert live ''photo.jpg'' ''FULL'' 200 200 =
     (take 3 (five_calls broken_convert live ''photo.jpg'' ''FULL'' 200 200),
      Inl (Error ''convert: not found''))"
proof -
  have ok: "snd (generateThumbnail example_ext live ''photo.jpg'' ''FULL'' 200 200) =
              Inr (Some ''SCALED'')"
    using raster_photo by (simp add: generateThumbnail_def example_ext_def)
  have broken:
    "makeDirectory broken_convert (tempFolder broken_convert live) = None"
    "writeFile broken_convert ''FULL'' (tempFile broken_convert live ''photo.jpg'') = None"
    "exec broken_convert (convert_command (tempFile broken_convert live ''photo.jpg'') 200 200) =
       Some (Error ''convert: not found'')"
    by (simp_all add: broken_convert_def example_ext_def)
  from thumbnail_cleanup_on_return [OF raster_photo, of live "''FULL''" 200 200 "''SCALED''"]
    thumbnail_cleanup_on_return [OF raster_broken, of live "''FULL''" 200 200 _
      "Error ''convert: not found''"]
    ok broken raster_photo
  show ?thesis by blast
qed

text \<open>
  C9, as the claim has it, fails where the conversion program is missing: the source was
  written into the temporary folder, and no call removes the folder.
\<close>

theorem thumbnail_cleanup_counterexample:
  "raster_image broken_convert ''photo.jpg'' \<and>
   snd (generateThumbnail broken_convert live ''photo.jpg'' ''FULL'' 200 200) =
     Inl (Error ''convert: not found'') \<and>
   Write ''FULL'' (tempFile broken_convert live ''photo.jpg'') \<in>
     set (fst (generateThumbnail broken_convert live ''photo.jpg'' ''FULL'' 200 200)) \<and>
   Remove (tempFolder broken_convert live) \<notin>
     set (fst (generateThumbnail broken_convert live ''photo.jpg'' ''FULL'' 200 200))"
  using raster_broken
  by (simp add: generateThumbnail_def broken_convert_def example_ext_def)

subsection \<open>Helper facts on the deployer and on \<^verbatim>\<open>Media.get\<close>\<close>

lemma fold_associate_Some: "fold (associate c i) files (Some r) = Some r"
  by (induction files) (simp_all add: associate_def)

lemma associate_None:
  "associate c i file None =
     (if basename file = thumbnail_jpg then None else Some (synthesized c i file))"
  by (simp add: associate_def synthesized_def)

lemma fold_associate_None:
  "fold (associate c i) files None =
     map_option (synthesized c i) (find (\<lambda>f. basename f \<noteq> thumbnail_jpg) files)"
  by (induction files) (simp_all add: associate_None fold_associate_Some)

lemma Resource_get_removed:
  "database t = database (snd (Media_remove s this)) \<Longrightarrow> Resource_get t (mid this) = None"
  by (auto simp: Resource_get_def Media_remove_def Resource_remove_def Let_def find_None_iff
        split: option.splits)

lemma getFolder_removeFolder: "getFolder folder depth (removeFolder folder st) = []"
  by (auto simp: getFolder_def removeFolder_def filter_empty_conv)

lemma getDeployer_storage [simp]: "getDeployer (s\<lparr>storage := st\<rparr>) = getDeployer s"
  by (simp add: getDeployer_def)

lemma getDeployer_database [simp]: "getDeployer (s\<lparr>database := db\<rparr>) = getDeployer s"
  by (simp add: getDeployer_def)

lemma deployed_files_removed:
  "fst (Media_remove s this) = None \<Longrightarrow>
   deployed_files (snd (Media_remove s this)) (mid this) = []"
  by (auto simp: deployed_files_def Media_remove_def Resource_remove_def Let_def
        getFolder_removeFolder split: option.splits)

lemma map_of_removeFolder:
  "map_of (removeFolder folder st) p = (if below folder p then None else map_of st p)"
  by (induction st) (auto simp: removeFolder_def)

lemma keys_removeFolder:
  "fst ` set (removeFolder folder st) = {p \<in> fst ` set st. \<not> below folder p}"
  by (auto simp: removeFolder_def)

lemma set_getFolder:
  "set (getFolder folder None st) =
     {p \<in> fst ` set st. below folder p \<and> length p = Suc (length folder)}"
  by (auto simp: getFolder_def)

lemma below_child [simp]: "below (getPath [i]) (getPath [i, name])"
  by (simp add: below_def getPath_def)

lemma remove_stored:
  "Media_remove stored abc =
     (None, \<lparr>mediaDeployer = Some filesystem, storage = [], database = []\<rparr>)"
  by (simp add: Media_remove_def Resource_remove_def stored_def abc_def getDeployer_def
        filesystem_def removeFolder_def getPath_def below_def)

lemma remove_unconfigured:
  "Media_remove unconfigured abc =
     (None, \<lparr>mediaDeployer = None, storage = [([''abc'', ''photo.jpg''], ''FULL'')],
             database = []\<rparr>)"
  by (simp add: Media_remove_def Resource_remove_def unconfigured_def abc_def getDeployer_def)

lemma files_orphaned:
  "deployed_files orphaned ''abc'' = [[''abc'', ''thumbnail.jpg''], [''abc'', ''photo.jpg'']]"
  by (simp add: deployed_files_def orphaned_def getDeployer_def filesystem_def getFolder_def
        getPath_def below_def)

lemma create_photo:
  "Media_create example_ext (empty_state (Some filesystem)) live photo (upload ''photo.jpg'') =
     (Inr abc,
      \<lparr>mediaDeployer = Some filesystem,
       storage = [([''abc'', ''photo.jpg''], ''FULL''), ([''abc'', ''thumbnail.jpg''], ''SCALED'')],
       database = [abc]\<rparr>)"
  using raster_photo
  by (simp add: Media_create_def empty_state_def getDeployer_def filesystem_def example_ext_def
        photo_def upload_def abc_def removeFolder_def setFile_def getPath_def
        generateThumbnail_def thumbnail_jpg_def Let_def)

lemma raster_logo: "\<not> raster_image example_ext ''logo.svg''"
  by (simp add: raster_image_def example_ext_def)

lemma create_logo:
  "Media_create example_ext (empty_state (Some filesystem)) live photo (upload ''logo.svg'') =
     (Inr abc,
      \<lparr>mediaDeployer = Some filesystem,
       storage = [([''abc'', ''logo.svg''], ''FULL'')],
       database = [abc]\<rparr>)"
  using raster_logo
  by (simp add: Media_create_def empty_state_def getDeployer_def filesystem_def example_ext_def
        photo_def upload_def abc_def removeFolder_def setFile_def getPath_def
        generateThumbnail_def thumbnail_jpg_def Let_def)


subsection \<open>Removing, then getting\<close>

text \<open>
  C8, as the code has it. When \<^verbatim>\<open>Media.remove\<close> completes (the resource carries its
  context), the record is deleted and, where a deployer is configured, so is the folder
  of the identifier: a \<^verbatim>\<open>Media.get\<close> right after it returns \<^verbatim>\<open>null\<close>. In any later
  state \<open>t\<close> whose database is the one the removal left, \<^verbatim>\<open>Media.get\<close> returns a
  resource if and only if a deployer is configured and lists a file other than
  \<^verbatim>\<open>thumbnail.jpg\<close> in the folder of the identifier; the resource is then made of the
  first such file and carries the identifier, the file name and the context, and no
  metadata.
\<close>

theorem get_after_remove:
  assumes removed: "Media_remove s this = (None, s')"
    and same: "database t = database s'"
  shows "Media_get t c (mid this) =
     map_option (synthesized c (mid this))
       (find (\<lambda>f. basename f \<noteq> thumbnail_jpg) (deployed_files t (mid this))) \<and>
   (Media_get t c (mid this) \<noteq> None \<longleftrightarrow>
      getDeployer t \<noteq> None \<and>
      (\<exists>f. f \<in> set (getFolder (getPath [mid this]) None (storage t)) \<and>
           basename f \<noteq> thumbnail_jpg)) \<and>
   Media_get s' c (mid this) = None"
proof -
  from removed have s': "s' = snd (Media_remove s this)" and completed: "fst (Media_remove s this) = None"
    by simp_all
  from same have db: "database t = database (snd (Media_remove s this))"
    by (simp add: s')
  have get: "Media_get t c (mid this) =
     map_option (synthesized c (mid this))
       (find (\<lambda>f. basename f \<noteq> thumbnail_jpg) (deployed_files t (mid this)))"
    by (simp add: Media_get_def Resource_get_removed [OF db] fold_associate_None)
  have "Resource_get s' (mid this) = None"
    unfolding s' by (rule Resource_get_removed) simp
  then have after: "Media_get s' c (mid this) = None"
    by (simp add: Media_get_def s' deployed_files_removed [OF completed])
  have "(find (\<lambda>f. basename f \<noteq> thumbnail_jpg) (deployed_files t (mid this)) \<noteq> None) =
        (getDeployer t \<noteq> None \<and>
         (\<exists>f. f \<in> set (getFolder (getPath [mid this]) None (storage t)) \<and>
              basename f \<noteq> thumbnail_jpg))"
    by (cases "getDeployer t") (auto simp: deployed_files_def find_None_iff)
  with get after show ?thesis
    by simp
qed

theorem get_after_remove_witness:
  "Media_remove stored abc =
     (None, \<lparr>mediaDeployer = Some filesystem, storage = [], database = []\<rparr>) \<and>
   database orphaned = [] \<and>
   Media_get orphaned live (mid abc) = Some (synthesized live ''abc'' [''abc'', ''photo.jpg'']) \<and>
   Media_get \<lparr>mediaDeployer = Some filesystem, storage = [], database = []\<rparr> live (mid abc) =
     None"
proof -
  have db: "database orphaned =
              database \<lparr>mediaDeployer = Some filesystem, storage = [], database = []\<rparr>"
    by (simp add: orphaned_def)
  from get_after_remove [OF remove_stored db, of live] db files_orphaned remove_stored
  show ?thesis
    by (simp add: abc_def basename_def thumbnail_jpg_def)
qed


text \<open>
  C8, as the claim has it, fails in an environment with no deployer: the removal
  completes, the deployed file of the identifier is still in the storage, and
  \<^verbatim>\<open>Media.get\<close> returns \<^verbatim>\<open>null\<close>.
\<close>

theorem get_after_remove_counterexample:
  "fst (Media_remove unconfigured abc) = None \<and>
   ([''abc'', ''photo.jpg''], ''FULL'') \<in> set (storage (snd (Media_remove unconfigured abc))) \<and>
   Media_get (snd (Media_remove unconfigured abc)) live (mid abc) = None"
  by (simp add: remove_unconfigured Media_get_def deployed_files_def getDeployer_def
        Resource_get_def)


subsection \<open>The files a creation deploys\<close>

text \<open>
  C5, as the code has it. After a \<^verbatim>\<open>Media.create\<close> that returns the resource \<open>r\<close>,
  for an upload whose file name is not \<^verbatim>\<open>thumbnail.jpg\<close>: the full payload is deployed
  under the file name in the folder of \<open>r\<close>; for an image that is not an SVG a thumbnail
  was generated and is deployed as \<^verbatim>\<open>thumbnail.jpg\<close>, and the folder holds these two
  files; for an SVG, and for anything that is no image, there is no \<^verbatim>\<open>thumbnail.jpg\<close>
  and the folder holds the full file alone.
\<close>

theorem create_deploys_files:
  assumes created: "Media_create ext s c data opts = (Inr r, s')"
    and name: "optFilename opts \<noteq> thumbnail_jpg"
  shows "map_of (storage s') (getPath [mid r, optFilename opts]) = Some (full opts) \<and>
    (raster_image ext (optFilename opts) \<longrightarrow>
       (\<exists>thumbnail.
          snd (generateThumbnail ext c (optFilename opts) (fromBase64 ext (full opts)) 200 200) =
            Inr (Some thumbnail) \<and>
          map_of (storage s') (getPath [mid r, thumbnail_jpg]) = Some (toBase64 ext thumbnail)) \<and>
       set (getFolder (getPath [mid r]) None (storage s')) =
         {getPath [mid r, optFilename opts], getPath [mid r, thumbnail_jpg]}) \<and>
    (\<not> raster_image ext (optFilename opts) \<longrightarrow>
       map_of (storage s') (getPath [mid r, thumbnail_jpg]) = None \<and>
       set (getFolder (getPath [mid r]) None (storage s')) = {getPath [mid r, optFilename opts]})"
proof -
  from created obtain deployer where dep: "getDeployer s = Some deployer"
    by (auto simp: Media_create_def split: option.splits)
  from created dep obtain s1 where s1: "superCreate ext s c data opts = (Inr r, s1)"
    by (auto simp: Media_create_def Let_def split: prod.splits sum.splits option.splits)
  define st3 where "st3 = setFile (getPath [mid r, optFilename opts]) (full opts)
                            (removeFolder (getPath [mid r]) (storage s1))"
  have full3: "map_of st3 (getPath [mid r, optFilename opts]) = Some (full opts)"
    by (simp add: st3_def setFile_def update_conv')
  have thumb3: "map_of st3 (getPath [mid r, thumbnail_jpg]) = None"
    using name
    by (simp add: st3_def setFile_def update_conv' map_of_removeFolder getPath_def below_def)
  have folder3: "set (getFolder (getPath [mid r]) None st3) = {getPath [mid r, optFilename opts]}"
    by (auto simp: set_getFolder st3_def setFile_def dom_update keys_removeFolder getPath_def below_def)
  show ?thesis
  proof (cases "raster_image ext (optFilename opts)")
    case False
    then have "generateThumbnail ext c (optFilename opts) (fromBase64 ext (full opts)) 200 200 =
                 ([], Inr None)"
      by (simp add: generateThumbnail_def)
    with created dep s1 have "storage s' = st3"
      by (auto simp: Media_create_def Let_def st3_def)
    with False full3 thumb3 folder3 show ?thesis by simp
  next
    case True
    from created dep s1 obtain thumbnail where
      thumb: "snd (generateThumbnail ext c (optFilename opts) (fromBase64 ext (full opts)) 200 200) =
                Inr (Some thumbnail)"
      using True
      by (auto simp: Media_create_def Let_def generateThumbnail_def
            split: sum.splits option.splits)
    with created dep s1 have s': "storage s' =
        setFile (getPath [mid r, thumbnail_jpg]) (toBase64 ext thumbnail) st3"
      by (auto simp: Media_create_def Let_def st3_def)
    have "map_of (storage s') (getPath [mid r, optFilename opts]) = Some (full opts)"
      using name full3 by (simp add: s' setFile_def update_conv' getPath_def)
    moreover have "map_of (storage s') (getPath [mid r, thumbnail_jpg]) =
                     Some (toBase64 ext thumbnail)"
      by (simp add: s' setFile_def update_conv')
    moreover have "set (getFolder (getPath [mid r]) None (storage s')) =
         {getPath [mid r, optFilename opts], getPath [mid r, thumbnail_jpg]}"
      using folder3
      by (auto simp: set_getFolder s' setFile_def dom_update getPath_def below_def)
    ultimately show ?thesis using True thumb by simp
  qed
qed

theorem create_deploys_files_witness:
  "fst (Media_create example_ext (empty_state (Some filesystem)) live photo
          (upload ''photo.jpg'')) = Inr abc \<and>
   raster_image example_ext ''photo.jpg'' \<and>
   map_of (storage (snd (Media_create example_ext (empty_state (Some filesystem)) live photo
                           (upload ''photo.jpg''))))
     [''abc'', ''photo.jpg''] = Some ''FULL'' \<and>
   map_of (storage (snd (Media_create example_ext (empty_state (Some filesystem)) live photo
                           (upload ''photo.jpg''))))
     [''abc'', ''thumbnail.jpg''] = Some ''SCALED'' \<and>
   fst (Media_create example_ext (empty_state (Some filesystem)) live photo
          (upload ''logo.svg'')) = Inr abc \<and>
   \<not> raster_image example_ext ''logo.svg'' \<and>
   map_of (storage (snd (Media_create example_ext (empty_state (Some filesystem)) live photo
                           (upload ''logo.svg''))))
     [''abc'', ''logo.svg''] = Some ''FULL'' \<and>
   map_of (storage (snd (Media_create example_ext (empty_state (Some filesystem)) live photo
                           (upload ''logo.svg''))))
     [''abc'', ''thumbnail.jpg''] = None"
proof -
  have names: "optFilename (upload ''photo.jpg'') \<noteq> thumbnail_jpg"
    "optFilename (upload ''logo.svg'') \<noteq> thumbnail_jpg"
    by (simp_all add: upload_def thumbnail_jpg_def)
  have r: "raster_image example_ext (optFilename (upload ''photo.jpg''))"
    "\<not> raster_image example_ext (optFilename (upload ''logo.svg''))"
    using raster_photo raster_logo by (simp_all add: upload_def)
  from create_deploys_files [OF create_photo names(1)] create_deploys_files [OF create_logo names(2)]
    r raster_photo raster_logo
  show ?thesis
    by (simp add: create_photo create_logo)
qed

text \<open>
  C5, as the claim has it, fails for an image uploaded under the name
  \<^verbatim>\<open>thumbnail.jpg\<close>: the thumbnail is written over the full file, and the folder ends
  with one file that holds the scaled image; the full payload is deployed nowhere.
\<close>

theorem create_thumbnail_counterexample:
  "raster_image example_ext ''thumbnail.jpg'' \<and>
   full (upload ''thumbnail.jpg'') = ''FULL'' \<and>
   fst (Media_create example_ext (empty_state (Some filesystem)) live photo
          (upload ''thumbnail.jpg'')) = Inr abc \<and>
   storage (snd (Media_create example_ext (empty_state (Some filesystem)) live photo
                   (upload ''thumbnail.jpg''))) =
     [([''abc'', ''thumbnail.jpg''], ''SCALED'')]"
proof -
  have raster: "raster_image example_ext ''thumbnail.jpg''"
    by (simp add: raster_image_def example_ext_def)
  then show ?thesis
    by (simp add: Media_create_def empty_state_def getDeployer_def filesystem_def example_ext_def
        photo_def upload_def abc_def removeFolder_def setFile_def getPath_def
        generateThumbnail_def thumbnail_jpg_def Let_def)
qed


subsection \<open>The list of media\<close>

text \<open>Helper facts: what the map of \<^verbatim>\<open>Media.list\<close> holds after each of its two loops.\<close>

lemma fold_update_distinct:
  "distinct (map fst m) \<Longrightarrow>
   distinct (map fst (fold (\<lambda>resource. AList.update (mid resource) resource) db m))"
  by (induction db arbitrary: m) (simp_all add: distinct_update)

lemma fold_update_dom:
  "fst ` set (fold (\<lambda>resource. AList.update (mid resource) resource) db m) =
     mid ` set db \<union> fst ` set m"
  by (induction db arbitrary: m) (auto simp: dom_update)

lemma fold_update_values:
  "map_of (fold (\<lambda>resource. AList.update (mid resource) resource) db m) k = Some v \<Longrightarrow>
   (v \<in> set db \<and> mid v = k) \<or> map_of m k = Some v"
proof (induction db arbitrary: m)
  case Nil
  then show ?case by simp
next
  case (Cons r db)
  from Cons.IH [of "AList.update (mid r) r m"] Cons.prems
  show ?case by (auto simp: update_conv' split: if_splits)
qed

lemma from_database_facts:
  "distinct (map fst (from_database db))"
  "fst ` set (from_database db) = mid ` set db"
  "map_of (from_database db) k = Some v \<Longrightarrow> v \<in> set db \<and> mid v = k"
  using fold_update_distinct [of "[]" db] fold_update_dom [of db "[]"]
    fold_update_values [of db "[]" k v]
  by (simp_all add: from_database_def)

lemma associate_file_map:
  "map_of (associate_file c file m) =
     (if basename file = thumbnail_jpg then map_of m
      else (map_of m)(basename (dirname file) \<mapsto>
             touched c file (case map_of m (basename (dirname file)) of
                               None \<Rightarrow> new_Media (basename (dirname file))
                             | Some r \<Rightarrow> r)))"
  by (auto simp: associate_file_def map_of_map_entry update_conv' touched_def fun_eq_iff
        split: option.splits)

lemma associate_file_distinct:
  "distinct (map fst m) \<Longrightarrow> distinct (map fst (associate_file c file m))"
  by (simp add: associate_file_def distinct_map_entry distinct_update)

lemma file_ids_snoc:
  "file_ids (files @ [file]) =
     (if basename file = thumbnail_jpg then file_ids files
      else insert (basename (dirname file)) (file_ids files))"
  by (auto simp: file_ids_def)

lemma in_file_ids:
  "k \<in> file_ids files \<longleftrightarrow>
     (\<exists>f. f \<in> set files \<and> basename f \<noteq> thumbnail_jpg \<and> basename (dirname f) = k)"
  by (auto simp: file_ids_def)

lemma listed_thumbnail:
  "basename entry = thumbnail_jpg \<Longrightarrow> listed c db files k v \<Longrightarrow> listed c db (files @ [entry]) k v"
  unfolding listed_def file_ids_snoc by auto

lemma listed_other:
  "k \<noteq> basename (dirname entry) \<Longrightarrow> listed c db files k v \<Longrightarrow>
   listed c db (files @ [entry]) k v"
  unfolding listed_def file_ids_snoc by auto

lemma listed_new:
  assumes "basename entry \<noteq> thumbnail_jpg"
    and "map_of m (basename (dirname entry)) = None \<Longrightarrow> basename (dirname entry) \<notin> mid ` set db"
    and "\<And>r. map_of m (basename (dirname entry)) = Some r \<Longrightarrow>
           listed c db files (basename (dirname entry)) r"
  shows "listed c db (files @ [entry]) (basename (dirname entry))
           (touched c entry (case map_of m (basename (dirname entry)) of
                               None \<Rightarrow> new_Media (basename (dirname entry))
                             | Some r \<Rightarrow> r))"
proof (cases "map_of m (basename (dirname entry))")
  case None
  with assms(1) show ?thesis
    unfolding listed_def file_ids_snoc by (auto simp: touched_def new_Media_def)
next
  case (Some r)
  from assms(3) [OF Some] assms(1) Some show ?thesis
    unfolding listed_def file_ids_snoc by (auto simp: touched_def image_iff)
qed

lemma fold_associate_file:
  "distinct (map fst (fold (associate_file c) files (from_database db))) \<and>
   dom (map_of (fold (associate_file c) files (from_database db))) =
     mid ` set db \<union> file_ids files \<and>
   (\<forall>k v. map_of (fold (associate_file c) files (from_database db)) k = Some v \<longrightarrow>
      listed c db files k v)"
proof (induction files rule: rev_induct)
  case Nil
  show ?case
    using from_database_facts [of db]
    by (simp add: dom_map_of_conv_image_fst file_ids_def listed_def)
next
  case (snoc entry files)
  define m where "m = fold (associate_file c) files (from_database db)"
  from snoc have d: "distinct (map fst m)"
    and dm: "dom (map_of m) = mid ` set db \<union> file_ids files"
    and v: "\<And>k v. map_of m k = Some v \<Longrightarrow> listed c db files k v"
    unfolding m_def by blast+
  have step: "fold (associate_file c) (files @ [entry]) (from_database db) =
                associate_file c entry m"
    by (simp add: m_def)
  have dist: "distinct (map fst (associate_file c entry m))"
    using d by (rule associate_file_distinct)
  have domain: "dom (map_of (associate_file c entry m)) =
                  mid ` set db \<union> file_ids (files @ [entry])"
    using dm by (auto simp: associate_file_map file_ids_snoc)
  have "listed c db (files @ [entry]) k w" if w: "map_of (associate_file c entry m) k = Some w"
    for k w
  proof (cases "basename entry = thumbnail_jpg")
    case True
    with w have "map_of m k = Some w" by (simp add: associate_file_map)
    from listed_thumbnail [OF True v [OF this]] show ?thesis .
  next
    case False
    show ?thesis
    proof (cases "k = basename (dirname entry)")
      case True
      have none: "map_of m (basename (dirname entry)) = None \<Longrightarrow>
            basename (dirname entry) \<notin> mid ` set db"
        using dm by (auto simp: domIff)
      have "listed c db (files @ [entry]) (basename (dirname entry))
              (touched c entry (case map_of m (basename (dirname entry)) of
                                  None \<Rightarrow> new_Media (basename (dirname entry))
                                | Some r \<Rightarrow> r))"
        using False none v by (rule listed_new)
      with w True False show ?thesis by (simp add: associate_file_map)
    next
      case other: False
      with w False have "map_of m k = Some w" by (simp add: associate_file_map)
      from listed_other [OF other v [OF this]] show ?thesis .
    qed
  qed
  with dist domain show ?case
    unfolding step by blast
qed

lemma Object_values_mset: "mset (Object_values m) = mset (map snd m)"
proof -
  have "mset (sort_key (\<lambda>e. numeric_value (fst e)) (filter (\<lambda>e. array_index (fst e)) m) @
              filter (\<lambda>e. \<not> array_index (fst e)) m) = mset m"
    by simp
  then have "image_mset snd
               (mset (sort_key (\<lambda>e. numeric_value (fst e)) (filter (\<lambda>e. array_index (fst e)) m) @
                      filter (\<lambda>e. \<not> array_index (fst e)) m)) = image_mset snd (mset m)"
    by (rule arg_cong)
  then show ?thesis
    by (simp only: Object_values_def mset_map)
qed

lemma keyed_values:
  "(\<And>k v. (k, v) \<in> set m \<Longrightarrow> mid v = k) \<Longrightarrow> map mid (map snd m) = map fst m"
  by (induction m) auto

lemma list_mset:
  "mset (map mid (listing ext s c)) =
     mset (map fst (fold (associate_file c) (all_files s) (from_database (database s))))"
proof -
  define m where "m = fold (associate_file c) (all_files s) (from_database (database s))"
  have d: "distinct (map fst m)" and v: "\<And>k v. map_of m k = Some v \<Longrightarrow> mid v = k"
    using fold_associate_file [of c "all_files s" "database s"]
    unfolding m_def listed_def by blast+
  have "map mid (map snd m) = map fst m"
    by (rule keyed_values) (simp add: d v)
  moreover have "mset (map mid (listing ext s c)) = mset (map mid (map snd m))"
    unfolding listing_def m_def [symmetric]
    by (simp only: mset_map mset_sort Object_values_mset)
  ultimately show ?thesis by (simp only: m_def)
qed

lemma listing_sorted_union:
  "set (map mid (listing ext s c)) = mid ` set (database s) \<union> file_ids (all_files s) \<and>
   distinct (map mid (listing ext s c)) \<and>
   sorted (map (getName ext) (listing ext s c)) \<and>
   (\<forall>r \<in> set (listing ext s c). mid r \<notin> file_ids (all_files s) \<longrightarrow> r \<in> set (database s)) \<and>
   (\<forall>r \<in> set (listing ext s c). mid r \<in> file_ids (all_files s) \<longrightarrow>
      mcontext r = Some c \<and>
      (\<exists>f. f \<in> set (all_files s) \<and> basename f \<noteq> thumbnail_jpg \<and>
           basename (dirname f) = mid r \<and> filename r = Some (basename f)) \<and>
      (mid r \<notin> mid ` set (database s) \<longrightarrow> metadata r = None))"
proof -
  define m where "m = fold (associate_file c) (all_files s) (from_database (database s))"
  have d: "distinct (map fst m)"
    and dm: "dom (map_of m) = mid ` set (database s) \<union> file_ids (all_files s)"
    and v: "\<And>k v. map_of m k = Some v \<Longrightarrow> listed c (database s) (all_files s) k v"
    using fold_associate_file [of c "all_files s" "database s"]
    unfolding m_def by blast+
  have ms: "mset (map mid (listing ext s c)) = mset (map fst m)"
    unfolding m_def by (rule list_mset)
  have ids: "set (map mid (listing ext s c)) =
               mid ` set (database s) \<union> file_ids (all_files s)"
    using mset_eq_setD [OF ms] dm by (simp add: dom_map_of_conv_image_fst)
  have dist: "distinct (map mid (listing ext s c))"
    using mset_eq_imp_distinct_iff [OF ms] d by simp
  have sorted: "sorted (map (getName ext) (listing ext s c))"
    by (simp add: listing_def)
  have members: "set (listing ext s c) = snd ` set m"
  proof -
    have "mset (listing ext s c) = mset (map snd m)"
      unfolding listing_def m_def [symmetric]
      by (simp only: mset_sort Object_values_mset)
    from mset_eq_setD [OF this] show ?thesis by simp
  qed
  have each: "listed c (database s) (all_files s) (mid r) r" if "r \<in> set (listing ext s c)" for r
  proof -
    from that members obtain k where "(k, r) \<in> set m" by auto
    with d have "map_of m k = Some r" by simp
    from v [OF this] show ?thesis by (simp add: listed_def)
  qed
  from ids dist sorted each show ?thesis
    unfolding listed_def by blast
qed

lemma enter_records_plain:
  "''__proto__'' \<notin> mid ` set db \<Longrightarrow>
   enter_records db (m, False) =
     Traced (fold (\<lambda>resource. AList.update (mid resource) resource) db m, False)"
  by (induction db arbitrary: m) auto

lemma associate_file_keys: "fst ` set m \<subseteq> fst ` set (associate_file c file m)"
  by (auto simp: associate_file_def dom_map_entry dom_update)

lemma associate_files_plain:
  "(\<And>f. f \<in> set files \<Longrightarrow> basename f \<noteq> thumbnail_jpg \<Longrightarrow>
      basename (dirname f) \<noteq> ''__proto__'' \<and>
      (basename (dirname f) \<in> set prototype_keys \<longrightarrow> basename (dirname f) \<in> fst ` set m)) \<Longrightarrow>
   associate_files c files (m, False) = Traced (fold (associate_file c) files m)"
proof (induction files arbitrary: m)
  case Nil
  show ?case by simp
next
  case (Cons entry files)
  show ?case
  proof (cases "basename entry = thumbnail_jpg")
    case True
    have "associate_files c files (m, False) = Traced (fold (associate_file c) files m)"
      by (rule Cons.IH) (simp add: Cons.prems)
    moreover have "associate_file c entry m = m"
      using True by (simp add: associate_file_def)
    ultimately show ?thesis using True by simp
  next
    case False
    from Cons.prems [of entry] False
    have entry: "basename (dirname entry) \<noteq> ''__proto__''"
      "basename (dirname entry) \<in> set prototype_keys \<Longrightarrow> basename (dirname entry) \<in> fst ` set m"
      by simp_all
    then have own: "\<not> inherited m (basename (dirname entry))"
      by (auto simp: inherited_def map_of_eq_None_iff)
    have "associate_files c files (associate_file c entry m, False) =
            Traced (fold (associate_file c) files (associate_file c entry m))"
    proof (rule Cons.IH)
      fix f
      assume "f \<in> set files" "basename f \<noteq> thumbnail_jpg"
      with Cons.prems [of f] associate_file_keys [of m c entry]
      show "basename (dirname f) \<noteq> ''__proto__'' \<and>
            (basename (dirname f) \<in> set prototype_keys \<longrightarrow>
             basename (dirname f) \<in> fst ` set (associate_file c entry m))"
        by auto
    qed
    with False entry(1) own show ?thesis by simp
  qed
qed

lemma list_plain:
  assumes "''__proto__'' \<notin> mid ` set (database s) \<union> file_ids (all_files s)"
    and "file_ids (all_files s) \<inter> set prototype_keys \<subseteq> mid ` set (database s)"
  shows "Media_list ext s c = Traced (listing ext s c)"
proof -
  have records: "enter_records (Resource_list s) ([], False) =
                   Traced (from_database (database s), False)"
    using assms(1) by (simp add: enter_records_plain Resource_list_def from_database_def)
  have "associate_files c (all_files s) (from_database (database s), False) =
          Traced (fold (associate_file c) (all_files s) (from_database (database s)))"
  proof (rule associate_files_plain)
    fix f
    assume "f \<in> set (all_files s)" "basename f \<noteq> thumbnail_jpg"
    then have "basename (dirname f) \<in> file_ids (all_files s)"
      by (auto simp: in_file_ids)
    with assms show "basename (dirname f) \<noteq> ''__proto__'' \<and>
        (basename (dirname f) \<in> set prototype_keys \<longrightarrow>
         basename (dirname f) \<in> fst ` set (from_database (database s)))"
      by (auto simp: from_database_facts(2))
  qed
  with records show ?thesis
    by (simp add: Media_list_def listing_def)
qed

lemma files_mixed: "file_ids (all_files mixed) = {''abc'', ''42''}"
  by (auto simp: file_ids_def all_files_def mixed_def getDeployer_def filesystem_def
        getFolder_def getPath_def below_def basename_def dirname_def thumbnail_jpg_def)

lemma list_mixed:
  "Media_list example_ext mixed live =
     Traced [lonely, abc, \<lparr>mid = ''42'', filename = Some ''zebra.png'', mcontext = Some live,
                           metadata = None\<rparr>]"
  by (simp add: Media_list_def Resource_list_def mixed_def all_files_def getDeployer_def
        filesystem_def getFolder_def getPath_def below_def associate_file_def basename_def
        dirname_def thumbnail_jpg_def new_Media_def abc_def lonely_def live_def inherited_def
        prototype_keys_def
        Object_values_def array_index_def digit_def numeric_value_def example_ext_def)


text \<open>
  A deployed folder named \<^verbatim>\<open>constructor\<close> with no record meets the inherited function
  of that name: no resource is made for it.
\<close>

lemma list_constructor_folder:
  "all_files constructor_folder = [[''constructor'', ''photo.jpg'']] \<and>
   Media_list example_ext constructor_folder live = Traced []"
  by (simp add: constructor_folder_def all_files_def getDeployer_def filesystem_def
        getFolder_def getPath_def below_def Media_list_def Resource_list_def basename_def
        dirname_def thumbnail_jpg_def inherited_def prototype_keys_def Object_values_def)


text \<open>
  C7, as the code has it. Let no record and no deployed folder be named \<^verbatim>\<open>__proto__\<close>,
  and let every deployed folder that is named like a function of \<^verbatim>\<open>Object.prototype\<close>
  (\<^verbatim>\<open>constructor\<close>, \<^verbatim>\<open>toString\<close>, ...) have a record. Then \<^verbatim>\<open>Media.list\<close> returns
  exactly one resource for every identifier that has a database record or a deployed file
  other than \<^verbatim>\<open>thumbnail.jpg\<close> (the files being those the deployer of the environment
  lists), sorted by \<^verbatim>\<open>getName()\<close> in the order of strings. A resource whose identifier
  has no such file is a record of the database; a resource whose identifier has one
  carries the context and the name of one of its files, and no metadata when the database
  has no record of the identifier.
\<close>

theorem list_is_sorted_union:
  assumes "''__proto__'' \<notin> mid ` set (database s) \<union> file_ids (all_files s)"
    and "file_ids (all_files s) \<inter> set prototype_keys \<subseteq> mid ` set (database s)"
  shows "\<exists>resources. Media_list ext s c = Traced resources \<and>
    set (map mid resources) = mid ` set (database s) \<union> file_ids (all_files s) \<and>
    distinct (map mid resources) \<and>
    sorted (map (getName ext) resources) \<and>
    (\<forall>r \<in> set resources. mid r \<notin> file_ids (all_files s) \<longrightarrow> r \<in> set (database s)) \<and>
    (\<forall>r \<in> set resources. mid r \<in> file_ids (all_files s) \<longrightarrow>
       mcontext r = Some c \<and>
       (\<exists>f. f \<in> set (all_files s) \<and> basename f \<noteq> thumbnail_jpg \<and>
            basename (dirname f) = mid r \<and> filename r = Some (basename f)) \<and>
       (mid r \<notin> mid ` set (database s) \<longrightarrow> metadata r = None))"
  using list_plain [OF assms, of ext c] listing_sorted_union [of ext s c]
  by blast

theorem list_is_sorted_union_witness:
  "''__proto__'' \<notin> mid ` set (database mixed) \<union> file_ids (all_files mixed) \<and>
   file_ids (all_files mixed) \<inter> set prototype_keys \<subseteq> mid ` set (database mixed) \<and>
   Media_list example_ext mixed live =
     Traced [lonely, abc, \<lparr>mid = ''42'', filename = Some ''zebra.png'', mcontext = Some live,
                           metadata = None\<rparr>] \<and>
   file_ids (all_files mixed) = {''abc'', ''42''} \<and>
   mid ` set (database mixed) = {''abc'', ''lonely''}"
proof -
  have ids: "mid ` set (database mixed) = {''abc'', ''lonely''}"
    by (simp add: mixed_def abc_def lonely_def)
  have h1: "''__proto__'' \<notin> mid ` set (database mixed) \<union> file_ids (all_files mixed)"
    by (simp add: ids files_mixed)
  have h2: "file_ids (all_files mixed) \<inter> set prototype_keys \<subseteq> mid ` set (database mixed)"
    by (simp add: ids files_mixed prototype_keys_def)
  from list_is_sorted_union [OF h1 h2, of example_ext live]
  obtain resources where "Media_list example_ext mixed live = Traced resources"
    by blast
  with h1 h2 ids show ?thesis
    by (simp add: list_mixed files_mixed)
qed

text \<open>
  C7, as the claim has it, fails for a deployed \<^verbatim>\<open>thumbnail.jpg\<close> with no database
  record: the file is listed by the deployer, and the result has no entry for its
  identifier.
\<close>

theorem list_counterexample:
  "all_files thumbnail_only = [[''abc'', ''thumbnail.jpg'']] \<and>
   database thumbnail_only = [] \<and>
   Media_list example_ext thumbnail_only live = Traced []"
  by (simp add: thumbnail_only_def all_files_def getDeployer_def filesystem_def getFolder_def
        getPath_def below_def Media_list_def Resource_list_def basename_def
        thumbnail_jpg_def Object_values_def)

end
